theory Spec2Isabelle
  imports Complex_Main "HOL-Library.Sublist"
begin

unbundle bit_operations_syntax

section \<open>Strings\<close>

text \<open>
  A Python \<open>str\<close> is a sequence of Unicode code points, so it is modelled as a list of
  natural numbers. The replacement literals of \<open>Main.py\<close> matter code point by code point:
  the file holds \<open>U+00C3 U+2014\<close>, \<open>U+00C3 U+00B7\<close> and \<open>U+00CF U+20AC\<close> where
  \<open>Reservation.py\<close> holds the single code points \<open>U+00D7\<close> and \<open>U+00F7\<close>.
\<close>

type_synonym pystr = "nat list"

definition ascii :: "string \<Rightarrow> pystr" where
  "ascii s = map of_char s"

text \<open>\<open>str.isspace\<close> for one code point (the set \<open>str.strip()\<close> removes).\<close>

definition isspace :: "nat \<Rightarrow> bool" where
  "isspace c \<longleftrightarrow>
     (9 \<le> c \<and> c \<le> 13) \<or> (28 \<le> c \<and> c \<le> 32) \<or> c = 133 \<or> c = 160 \<or> c = 5760 \<or>
     (8192 \<le> c \<and> c \<le> 8202) \<or> c = 8232 \<or> c = 8233 \<or> c = 8239 \<or> c = 8287 \<or> c = 12288"

definition strip :: "pystr \<Rightarrow> pystr" where
  "strip s = rev (dropWhile isspace (rev (dropWhile isspace s)))"

text \<open>
  \<open>s.replace(old, new)\<close>: left to right, occurrences do not overlap. For an empty \<open>old\<close>
  Python inserts \<open>new\<close> before every code point and at the end.
\<close>

fun replace :: "pystr \<Rightarrow> pystr \<Rightarrow> pystr \<Rightarrow> pystr" where
  "replace [] new s = concat (map (\<lambda>c. new @ [c]) s) @ new"
| "replace (a # old) new [] = []"
| "replace (a # old) new (c # cs) =
     (if c = a \<and> take (length old) cs = old
      then new @ replace (a # old) new (drop (length old) cs)
      else c # replace (a # old) new cs)"

section \<open>Errors and outcomes\<close>

text \<open>
  Every failure of the two evaluators is a Python exception. The \<open>ValueError\<close>s the
  repository raises itself are told apart by their message and carry the name the
  specification gives the kind:
  \<^item> \<open>EmptyExpression\<close>: \<open>ValueError("Empty expression")\<close>;
  \<^item> \<open>SyntaxError\<close>: \<open>ValueError("Syntax error: ...")\<close> in \<open>Main.py\<close>,
    \<open>ValueError("Invalid expression: ...")\<close> in \<open>Reservation.py\<close>;
  \<^item> \<open>DisallowedConstruct c\<close>: \<open>ValueError("Unsupported operation: c")\<close>, respectively
    \<open>ValueError("Disallowed expression: c")\<close>;
  \<^item> \<open>UnknownName n\<close>: \<open>ValueError("Unknown function or constant: n")\<close>, respectively
    \<open>ValueError("Use of name 'n' is not allowed")\<close>;
  \<^item> \<open>ComplexResult\<close>: \<open>ValueError("Complex numbers not supported")\<close>.
  The others are exceptions of the host language that the evaluators let through:
  \<open>DomainError\<close> is the \<open>ValueError\<close> raised inside the \<open>math\<close> module and by the integer
  operators ("math domain error", "factorial() not defined for negative values",
  "negative shift count"); \<open>PySyntaxError\<close> is the host's \<open>SyntaxError\<close> (with its subclass
  \<open>IndentationError\<close>) as \<open>ast.parse\<close> raises it, \<open>PyParseError\<close> any other exception of
  \<open>ast.parse\<close>.
\<close>

datatype error =
    EmptyExpression
  | SyntaxError
  | DisallowedConstruct string
  | UnknownName pystr
  | ComplexResult
  | DomainError
  | ZeroDivisionError
  | TypeError
  | OverflowError
  | IndexError
  | NameError
  | PySyntaxError
  | PyParseError

text \<open>
  The host's parser and evaluator are modelled on a fragment of the language. Outside it
  the model answers \<open>Unmodelled\<close>: it never invents a result.
\<close>

datatype 'a outcome = Returns 'a | Raises error | Unmodelled

definition obind :: "'a outcome \<Rightarrow> ('a \<Rightarrow> 'b outcome) \<Rightarrow> 'b outcome" where
  "obind m f = (case m of Returns x \<Rightarrow> f x | Raises e \<Rightarrow> Raises e | Unmodelled \<Rightarrow> Unmodelled)"

section \<open>Values\<close>

text \<open>
  A Python \<open>float\<close> is a binary64 value. \<open>Dyadic m e\<close> is the number \<open>m * 2^e\<close>, kept
  normalised (\<open>m\<close> odd, or \<open>m = 0\<close> and \<open>e = 0\<close> for \<open>+0.0\<close>); \<open>NegZero\<close> is \<open>-0.0\<close>.
  Only operations whose exact result is a binary64 value are modelled, so no rounding is
  ever guessed.
\<close>

datatype pyfloat = Dyadic int int | NegZero | PInf | NInf | NaN

datatype pyval =
    VInt int
  | VFloat pyfloat
  | VComplex pyfloat pyfloat
  | VStr pystr
  | VTuple "pyval list"
  | VList "pyval list"
  | VFunc string

text \<open>\<open>x == 0\<close> for a float \<open>x\<close>.\<close>

fun float_is_zero :: "pyfloat \<Rightarrow> bool" where
  "float_is_zero (Dyadic m e) = (m = 0)"
| "float_is_zero NegZero = True"
| "float_is_zero _ = False"

section \<open>The abstract syntax tree of the host\<close>

text \<open>
  The node classes of Python's \<open>ast\<close> module that an expression can contain. \<open>OpNode\<close>,
  \<open>UnaryOpNode\<close> and \<open>Load\<close> are the operator and context instances, which \<open>ast.walk\<close>
  yields as nodes of their own; \<open>Other c ns\<close> is a node of any other class \<open>c\<close> with the
  child nodes \<open>ns\<close> (\<open>IfExp\<close>, \<open>Compare\<close>, \<open>Lambda\<close>, \<open>keyword\<close>, \<open>Slice\<close>, ...).
\<close>

datatype operator =
  Add | Sub | Mult | MatMult | Div | Mod | Pow_op | LShift | RShift | BitOr | BitXor | BitAnd
  | FloorDiv

datatype unaryop = Invert | Not_op | UAdd | USub

datatype const_value =
    CInt int
  | CFloat pyfloat
  | CImag pyfloat
  | CStr pystr
  | COther

datatype node =
    Expression node
  | Call node "node list" "node list"
  | Name pystr
  | BinOp node operator node
  | UnaryOp unaryop node
  | Constant const_value
  | Tuple "node list"
  | List "node list"
  | Subscript node node
  | Attribute node pystr
  | OpNode operator
  | UnaryOpNode unaryop
  | Load
  | Other string "node list"

fun operator_name :: "operator \<Rightarrow> string" where
  "operator_name Add = ''Add''"
| "operator_name Sub = ''Sub''"
| "operator_name Mult = ''Mult''"
| "operator_name MatMult = ''MatMult''"
| "operator_name Div = ''Div''"
| "operator_name Mod = ''Mod''"
| "operator_name Pow_op = ''Pow''"
| "operator_name LShift = ''LShift''"
| "operator_name RShift = ''RShift''"
| "operator_name BitOr = ''BitOr''"
| "operator_name BitXor = ''BitXor''"
| "operator_name BitAnd = ''BitAnd''"
| "operator_name FloorDiv = ''FloorDiv''"

fun unaryop_name :: "unaryop \<Rightarrow> string" where
  "unaryop_name Invert = ''Invert''"
| "unaryop_name Not_op = ''Not''"
| "unaryop_name UAdd = ''UAdd''"
| "unaryop_name USub = ''USub''"

text \<open>\<open>type(n).__name__\<close>.\<close>

fun class_name :: "node \<Rightarrow> string" where
  "class_name (Expression b) = ''Expression''"
| "class_name (Call f as ks) = ''Call''"
| "class_name (Name i) = ''Name''"
| "class_name (BinOp l op r) = ''BinOp''"
| "class_name (UnaryOp op x) = ''UnaryOp''"
| "class_name (Constant c) = ''Constant''"
| "class_name (Tuple es) = ''Tuple''"
| "class_name (List es) = ''List''"
| "class_name (Subscript v s) = ''Subscript''"
| "class_name (Attribute v a) = ''Attribute''"
| "class_name (OpNode op) = operator_name op"
| "class_name (UnaryOpNode op) = unaryop_name op"
| "class_name Load = ''Load''"
| "class_name (Other c ns) = c"

text \<open>\<open>ast.iter_child_nodes\<close>: the fields in declaration order, lists flattened.\<close>

fun iter_child_nodes :: "node \<Rightarrow> node list" where
  "iter_child_nodes (Expression b) = [b]"
| "iter_child_nodes (Call f as ks) = f # as @ ks"
| "iter_child_nodes (Name i) = [Load]"
| "iter_child_nodes (BinOp l op r) = [l, OpNode op, r]"
| "iter_child_nodes (UnaryOp op x) = [UnaryOpNode op, x]"
| "iter_child_nodes (Constant c) = []"
| "iter_child_nodes (Tuple es) = es @ [Load]"
| "iter_child_nodes (List es) = es @ [Load]"
| "iter_child_nodes (Subscript v s) = [v, s, Load]"
| "iter_child_nodes (Attribute v a) = [v, Load]"
| "iter_child_nodes (OpNode op) = []"
| "iter_child_nodes (UnaryOpNode op) = []"
| "iter_child_nodes Load = []"
| "iter_child_nodes (Other c ns) = ns"

text \<open>
  The number of nodes \<open>ast.walk\<close> yields below a node, itself included; it bounds the
  work list of the walk.
\<close>

fun weight :: "node \<Rightarrow> nat" where
  "weight (Expression b) = Suc (weight b)"
| "weight (Call f as ks) = Suc (weight f + sum_list (map weight as) + sum_list (map weight ks))"
| "weight (Name i) = 2"
| "weight (BinOp l op r) = Suc (Suc (weight l + weight r))"
| "weight (UnaryOp op x) = Suc (Suc (weight x))"
| "weight (Constant c) = 1"
| "weight (Tuple es) = Suc (Suc (sum_list (map weight es)))"
| "weight (List es) = Suc (Suc (sum_list (map weight es)))"
| "weight (Subscript v s) = Suc (Suc (weight v + weight s))"
| "weight (Attribute v a) = Suc (Suc (weight v))"
| "weight (OpNode op) = 1"
| "weight (UnaryOpNode op) = 1"
| "weight Load = 1"
| "weight (Other c ns) = Suc (sum_list (map weight ns))"

lemma weight_children: "weight n = Suc (sum_list (map weight (iter_child_nodes n)))"
  by (cases n) simp_all

text \<open>
  \<open>ast.walk\<close>: a queue that starts with the root; the front node is taken off, its
  children are appended, and the node is yielded (breadth first).
\<close>

function walk_queue :: "node list \<Rightarrow> node list" where
  "walk_queue [] = []"
| "walk_queue (n # todo) = n # walk_queue (todo @ iter_child_nodes n)"
  by pat_completeness auto
termination
  by (relation "measure (\<lambda>q. sum_list (map weight q))") (simp_all add: weight_children)

definition ast_walk :: "node \<Rightarrow> node list" where
  "ast_walk n = walk_queue [n]"

section \<open>The name table\<close>

text \<open>
  \<open>ALLOWED_NAMES\<close> is built from the host's \<open>math\<close> module: every name of \<open>dir(math)\<close>
  that does not start with two underscores, bound to the module's attribute. \<open>math_dir\<close>
  lists these names for CPython 3.11 (3.8 lacks \<open>cbrt\<close>, \<open>exp2\<close>, \<open>lcm\<close>, \<open>nextafter\<close>
  and \<open>ulp\<close>; later versions add names). The five floats of the module are binary64
  values, the rest are functions; \<open>VFunc\<close> names a function by its qualified name.
\<close>

definition math_dir :: "string list" where
  "math_dir =
    [''acos'', ''acosh'', ''asin'', ''asinh'', ''atan'', ''atan2'', ''atanh'', ''cbrt'', ''ceil'',
     ''comb'', ''copysign'', ''cos'', ''cosh'', ''degrees'', ''dist'', ''e'', ''erf'', ''erfc'',
     ''exp'', ''exp2'', ''expm1'', ''fabs'', ''factorial'', ''floor'', ''fmod'', ''frexp'', ''fsum'',
     ''gamma'', ''gcd'', ''hypot'', ''inf'', ''isclose'', ''isfinite'', ''isinf'', ''isnan'',
     ''isqrt'', ''lcm'', ''ldexp'', ''lgamma'', ''log'', ''log10'', ''log1p'', ''log2'', ''modf'',
     ''nan'', ''nextafter'', ''perm'', ''pi'', ''pow'', ''prod'', ''radians'', ''remainder'',
     ''sin'', ''sinh'', ''sqrt'', ''tan'', ''tanh'', ''tau'', ''trunc'', ''ulp'']"

definition math_getattr :: "string \<Rightarrow> pyval" where
  "math_getattr name =
     (if name = ''pi'' then VFloat (Dyadic 884279719003555 (- 48))
      else if name = ''e'' then VFloat (Dyadic 6121026514868073 (- 51))
      else if name = ''tau'' then VFloat (Dyadic 884279719003555 (- 47))
      else if name = ''inf'' then VFloat PInf
      else if name = ''nan'' then VFloat NaN
      else VFunc (''math.'' @ name))"

definition math_names :: "(pystr \<times> pyval) list" where
  "math_names = map (\<lambda>name. (ascii name, math_getattr name)) math_dir"

text \<open>The \<open>update\<close> of \<open>Main.py\<close>: six names, bound to builtins and to \<open>math.factorial\<close>.\<close>

definition ALLOWED_NAMES :: "pystr \<rightharpoonup> pyval" where
  "ALLOWED_NAMES = map_of math_names ++ map_of
     [(ascii ''abs'', VFunc ''abs''),
      (ascii ''round'', VFunc ''round''),
      (ascii ''pow'', VFunc ''pow''),
      (ascii ''factorial'', VFunc ''math.factorial''),
      (ascii ''min'', VFunc ''min''),
      (ascii ''max'', VFunc ''max'')]"

text \<open>The \<open>update\<close> of \<open>Reservation.py\<close> has four names: no \<open>min\<close>, no \<open>max\<close>.\<close>

definition ALLOWED_NAMES_reservation :: "pystr \<rightharpoonup> pyval" where
  "ALLOWED_NAMES_reservation = map_of math_names ++ map_of
     [(ascii ''abs'', VFunc ''abs''),
      (ascii ''round'', VFunc ''round''),
      (ascii ''pow'', VFunc ''pow''),
      (ascii ''factorial'', VFunc ''math.factorial'')]"

section \<open>The node whitelist and the validation loop\<close>

definition ALLOWED_NODES :: "string list" where
  "ALLOWED_NODES =
    [''Expression'', ''Call'', ''Name'', ''Load'', ''BinOp'', ''UnaryOp'',
     ''Num'', ''Constant'', ''Add'', ''Sub'', ''Mult'', ''Div'', ''Mod'',
     ''Pow'', ''USub'', ''UAdd'', ''LShift'', ''RShift'', ''BitXor'',
     ''BitAnd'', ''BitOr'', ''FloorDiv'', ''Tuple'', ''List'']"

definition ALLOWED_NODES_reservation :: "string list" where
  "ALLOWED_NODES_reservation =
    [''Expression'', ''Call'', ''Name'', ''Load'', ''BinOp'', ''UnaryOp'',
     ''Num'', ''Constant'', ''Add'', ''Sub'', ''Mult'', ''Div'', ''Mod'',
     ''Pow'', ''USub'', ''UAdd'', ''LShift'', ''RShift'', ''BitXor'',
     ''BitAnd'', ''BitOr'', ''FloorDiv'', ''Tuple'', ''List'', ''Subscript'',
     ''Index'', ''Slice'']"

text \<open>\<open>isinstance(n, ast.Name) and n.id not in names\<close>.\<close>

fun unknown_name :: "(pystr \<rightharpoonup> pyval) \<Rightarrow> node \<Rightarrow> pystr option" where
  "unknown_name names (Name i) = (if names i = None then Some i else None)"
| "unknown_name names n = None"

text \<open>
  The loop over \<open>ast.walk(node)\<close>: the first node that fails one of the two tests raises,
  the class test first.
\<close>

fun check_nodes :: "string list \<Rightarrow> (pystr \<rightharpoonup> pyval) \<Rightarrow> node list \<Rightarrow> error option" where
  "check_nodes allowed names [] = None"
| "check_nodes allowed names (n # ns) =
     (if class_name n \<notin> set allowed then Some (DisallowedConstruct (class_name n))
      else case unknown_name names n of
             Some i \<Rightarrow> Some (UnknownName i)
           | None \<Rightarrow> check_nodes allowed names ns)"

section \<open>Exact binary64 arithmetic\<close>

text \<open>
  Arithmetic of the host on \<open>float\<close> is IEEE 754 binary64 with rounding to nearest. An
  operation is modelled where its exact result is a binary64 value, which rounding leaves
  alone; where rounding would choose a value the model says \<open>Unmodelled\<close>.
\<close>

function norm_dyadic :: "int \<Rightarrow> int \<Rightarrow> int \<times> int" where
  "norm_dyadic m e =
     (if m = 0 then (0, 0)
      else if even m then norm_dyadic (m div 2) (e + 1)
      else (m, e))"
  by pat_completeness auto
termination
  by (relation "measure (\<lambda>(m, e). nat \<bar>m\<bar>)") auto

text \<open>\<open>m * 2^e\<close> with \<open>m\<close> odd is a binary64 value: 53 bits, exponent range, below \<open>2^1024\<close>.\<close>

definition binary64 :: "int \<Rightarrow> int \<Rightarrow> bool" where
  "binary64 m e \<longleftrightarrow>
     \<bar>m\<bar> < 2 ^ 53 \<and> - 1074 \<le> e \<and> (e \<le> 971 \<or> (e < 1024 \<and> \<bar>m\<bar> < 2 ^ nat (1024 - e)))"

definition mk_float :: "int \<Rightarrow> int \<Rightarrow> pyfloat outcome" where
  "mk_float m e =
     (case norm_dyadic m e of (m', e') \<Rightarrow>
        if binary64 m' e' then Returns (Dyadic m' e') else Unmodelled)"

text \<open>
  An \<open>int\<close> becomes a \<open>float\<close> by rounding; from \<open>2^1024 - 2^970\<close> on the host raises
  \<open>OverflowError\<close> ("int too large to convert to float").
\<close>

definition int_fits_float :: "int \<Rightarrow> bool" where
  "int_fits_float n \<longleftrightarrow> \<bar>n\<bar> < 2 ^ 1024 - 2 ^ 970"

definition float_of_int :: "int \<Rightarrow> pyfloat outcome" where
  "float_of_int n = (if int_fits_float n then mk_float n 0 else Raises OverflowError)"

fun float_neg :: "pyfloat \<Rightarrow> pyfloat" where
  "float_neg (Dyadic m e) = (if m = 0 then NegZero else Dyadic (- m) e)"
| "float_neg NegZero = Dyadic 0 0"
| "float_neg PInf = NInf"
| "float_neg NInf = PInf"
| "float_neg NaN = NaN"

fun float_abs :: "pyfloat \<Rightarrow> pyfloat" where
  "float_abs (Dyadic m e) = Dyadic \<bar>m\<bar> e"
| "float_abs NegZero = Dyadic 0 0"
| "float_abs PInf = PInf"
| "float_abs NInf = PInf"
| "float_abs NaN = NaN"

fun float_add :: "pyfloat \<Rightarrow> pyfloat \<Rightarrow> pyfloat outcome" where
  "float_add (Dyadic m1 e1) (Dyadic m2 e2) =
     (let e = min e1 e2 in mk_float (m1 * 2 ^ nat (e1 - e) + m2 * 2 ^ nat (e2 - e)) e)"
| "float_add x y = Unmodelled"

fun float_sub :: "pyfloat \<Rightarrow> pyfloat \<Rightarrow> pyfloat outcome" where
  "float_sub (Dyadic m1 e1) (Dyadic m2 e2) =
     (let e = min e1 e2 in mk_float (m1 * 2 ^ nat (e1 - e) - m2 * 2 ^ nat (e2 - e)) e)"
| "float_sub x y = Unmodelled"

text \<open>A zero product or quotient takes the exclusive or of the signs.\<close>

fun float_mul :: "pyfloat \<Rightarrow> pyfloat \<Rightarrow> pyfloat outcome" where
  "float_mul (Dyadic m1 e1) (Dyadic m2 e2) =
     (if m1 = 0 \<or> m2 = 0 then Returns (if m1 < 0 \<or> m2 < 0 then NegZero else Dyadic 0 0)
      else mk_float (m1 * m2) (e1 + e2))"
| "float_mul x y = Unmodelled"

text \<open>The quotient of two dyadic numbers, the divisor not zero, when it is dyadic.\<close>

definition dyadic_quot :: "int \<times> int \<Rightarrow> int \<times> int \<Rightarrow> pyfloat outcome" where
  "dyadic_quot a b =
     (case (a, b) of ((m1, e1), (m2, e2)) \<Rightarrow>
        if m1 = 0 then Returns (if m2 < 0 then NegZero else Dyadic 0 0)
        else if m2 dvd m1 then mk_float (m1 div m2) (e1 - e2)
        else Unmodelled)"

fun float_div :: "pyfloat \<Rightarrow> pyfloat \<Rightarrow> pyfloat outcome" where
  "float_div (Dyadic m1 e1) (Dyadic m2 e2) = dyadic_quot (m1, e1) (m2, e2)"
| "float_div x y = Unmodelled"

text \<open>The integer square root, by bisection.\<close>

function isqrt_aux :: "nat \<Rightarrow> nat \<Rightarrow> nat \<Rightarrow> nat" where
  "isqrt_aux n lo hi =
     (if hi \<le> lo + 1 then lo
      else if ((lo + hi) div 2) * ((lo + hi) div 2) \<le> n then isqrt_aux n ((lo + hi) div 2) hi
      else isqrt_aux n lo ((lo + hi) div 2))"
  by pat_completeness auto
termination
  by (relation "measure (\<lambda>(n, lo, hi). hi - lo)") auto

definition isqrt :: "nat \<Rightarrow> nat" where
  "isqrt n = isqrt_aux n 0 (n + 1)"

text \<open>
  The host's \<open>sqrt\<close> on a \<open>float\<close> is correctly rounded, so a square of a binary64 value has
  that value as its root. A negative argument is the \<open>math domain error\<close>.
\<close>

fun float_sqrt :: "pyfloat \<Rightarrow> pyfloat outcome" where
  "float_sqrt (Dyadic m e) =
     (if m < 0 then Raises DomainError
      else if m = 0 then Returns (Dyadic 0 0)
      else if even e \<and> int (isqrt (nat m)) * int (isqrt (nat m)) = m
        then Returns (Dyadic (int (isqrt (nat m))) (e div 2))
      else Unmodelled)"
| "float_sqrt NegZero = Returns NegZero"
| "float_sqrt x = Unmodelled"

section \<open>The operators of the host\<close>

fun is_number :: "pyval \<Rightarrow> bool" where
  "is_number (VInt n) = True"
| "is_number (VFloat x) = True"
| "is_number (VComplex x y) = True"
| "is_number v = False"

fun is_sequence :: "pyval \<Rightarrow> bool" where
  "is_sequence (VStr s) = True"
| "is_sequence (VTuple vs) = True"
| "is_sequence (VList vs) = True"
| "is_sequence v = False"

text \<open>\<open>v == 0\<close> for a number.\<close>

fun is_zero :: "pyval \<Rightarrow> bool" where
  "is_zero (VInt n) = (n = 0)"
| "is_zero (VFloat x) = float_is_zero x"
| "is_zero (VComplex x y) = (float_is_zero x \<and> float_is_zero y)"
| "is_zero v = False"

text \<open>The conversion of an operand to \<open>float\<close> can raise only for an \<open>int\<close>.\<close>

fun converts :: "pyval \<Rightarrow> bool" where
  "converts (VInt n) = int_fits_float n"
| "converts v = True"

fun to_float :: "pyval \<Rightarrow> pyfloat outcome" where
  "to_float (VInt n) = float_of_int n"
| "to_float (VFloat x) = Returns x"
| "to_float v = Raises TypeError"

fun to_complex :: "pyval \<Rightarrow> (pyfloat \<times> pyfloat) outcome" where
  "to_complex (VComplex x y) = Returns (x, y)"
| "to_complex v = obind (to_float v) (\<lambda>x. Returns (x, Dyadic 0 0))"

text \<open>
  An \<open>int\<close> of the host is unbounded, and memory is not. A power, a shift to the left
  and a factorial are modelled while their arguments are \<open>small\<close>; for larger ones the
  host may run out of memory or time.
\<close>

definition small :: "int \<Rightarrow> bool" where
  "small n \<longleftrightarrow> \<bar>n\<bar> \<le> 4096"

text \<open>Two \<open>int\<close>s. \<open>//\<close> and \<open>%\<close> floor, as \<open>div\<close> and \<open>mod\<close> on \<open>int\<close> do.\<close>

fun int_binop :: "operator \<Rightarrow> int \<Rightarrow> int \<Rightarrow> pyval outcome" where
  "int_binop Add a b = Returns (VInt (a + b))"
| "int_binop Sub a b = Returns (VInt (a - b))"
| "int_binop Mult a b = Returns (VInt (a * b))"
| "int_binop MatMult a b = Raises TypeError"
| "int_binop Div a b =
     (if b = 0 then Raises ZeroDivisionError
      else obind (dyadic_quot (norm_dyadic a 0) (norm_dyadic b 0)) (\<lambda>x. Returns (VFloat x)))"
| "int_binop FloorDiv a b = (if b = 0 then Raises ZeroDivisionError else Returns (VInt (a div b)))"
| "int_binop Mod a b = (if b = 0 then Raises ZeroDivisionError else Returns (VInt (a mod b)))"
| "int_binop Pow_op a b =
     (if 0 \<le> b then (if small a \<and> small b then Returns (VInt (a ^ nat b)) else Unmodelled)
      else if a = 0 then Raises ZeroDivisionError
      else Unmodelled)"
| "int_binop LShift a b =
     (if b < 0 then Raises DomainError
      else if small b then Returns (VInt (a * 2 ^ nat b))
      else Unmodelled)"
| "int_binop RShift a b = (if b < 0 then Raises DomainError else Returns (VInt (a div 2 ^ nat b)))"
| "int_binop BitOr a b = Returns (VInt (a OR b))"
| "int_binop BitXor a b = Returns (VInt (a XOR b))"
| "int_binop BitAnd a b = Returns (VInt (a AND b))"

text \<open>Two \<open>float\<close>s, after the conversion and the test for a zero divisor.\<close>

fun float_binop :: "operator \<Rightarrow> pyfloat \<Rightarrow> pyfloat \<Rightarrow> pyfloat outcome" where
  "float_binop Add x y = float_add x y"
| "float_binop Sub x y = float_sub x y"
| "float_binop Mult x y = float_mul x y"
| "float_binop Div x y = float_div x y"
| "float_binop op x y = Unmodelled"

fun complex_binop ::
  "operator \<Rightarrow> pyfloat \<times> pyfloat \<Rightarrow> pyfloat \<times> pyfloat \<Rightarrow> pyval outcome" where
  "complex_binop Add (a, b) (c, d) =
     obind (float_add a c) (\<lambda>re. obind (float_add b d) (\<lambda>im. Returns (VComplex re im)))"
| "complex_binop Sub (a, b) (c, d) =
     obind (float_sub a c) (\<lambda>re. obind (float_sub b d) (\<lambda>im. Returns (VComplex re im)))"
| "complex_binop Mult (a, b) (c, d) =
     obind (float_mul a c) (\<lambda>ac. obind (float_mul b d) (\<lambda>bd. obind (float_sub ac bd) (\<lambda>re.
     obind (float_mul a d) (\<lambda>ad. obind (float_mul b c) (\<lambda>bc. obind (float_add ad bc) (\<lambda>im.
       Returns (VComplex re im)))))))"
| "complex_binop op x y = Unmodelled"

definition is_divide :: "operator \<Rightarrow> bool" where
  "is_divide op \<longleftrightarrow> op = Div \<or> op = FloorDiv \<or> op = Mod"

definition is_bitwise :: "operator \<Rightarrow> bool" where
  "is_bitwise op \<longleftrightarrow> op = LShift \<or> op = RShift \<or> op = BitOr \<or> op = BitXor \<or> op = BitAnd"

definition is_complex :: "pyval \<Rightarrow> bool" where
  "is_complex v = (case v of VComplex x y \<Rightarrow> True | _ \<Rightarrow> False)"

text \<open>
  An arithmetic operator on two numbers. Two \<open>int\<close>s stay exact. Otherwise both operands
  are converted first (an \<open>int\<close> too large raises \<open>OverflowError\<close>), then a zero divisor
  raises \<open>ZeroDivisionError\<close>, then the operation is carried out. \<open>complex\<close> has no \<open>//\<close>
  and no \<open>%\<close>.
\<close>

definition num_binop :: "operator \<Rightarrow> pyval \<Rightarrow> pyval \<Rightarrow> pyval outcome" where
  "num_binop op a b =
     (case (a, b) of
        (VInt m, VInt n) \<Rightarrow> int_binop op m n
      | _ \<Rightarrow>
        if (is_complex a \<or> is_complex b) \<and> (op = FloorDiv \<or> op = Mod) then Raises TypeError
        else if \<not> converts a \<or> \<not> converts b then Raises OverflowError
        else if is_divide op \<and> is_zero b then Raises ZeroDivisionError
        else if is_complex a \<or> is_complex b
          then obind (to_complex a) (\<lambda>x. obind (to_complex b) (\<lambda>y. complex_binop op x y))
        else obind (to_float a) (\<lambda>x. obind (to_float b) (\<lambda>y.
               obind (float_binop op x y) (\<lambda>z. Returns (VFloat z)))))"

text \<open>
  \<open>+\<close> joins two sequences of one type. \<open>*\<close> with a sequence (repetition) and \<open>%\<close> with a
  \<open>str\<close> on the left (formatting) are not modelled. No other operator is defined when an
  operand is a sequence or a function.
\<close>

fun seq_add :: "pyval \<Rightarrow> pyval \<Rightarrow> pyval outcome" where
  "seq_add (VStr s) (VStr t) = Returns (VStr (s @ t))"
| "seq_add (VTuple s) (VTuple t) = Returns (VTuple (s @ t))"
| "seq_add (VList s) (VList t) = Returns (VList (s @ t))"
| "seq_add a b = Raises TypeError"

definition is_str :: "pyval \<Rightarrow> bool" where
  "is_str v = (case v of VStr s \<Rightarrow> True | _ \<Rightarrow> False)"

definition binop :: "operator \<Rightarrow> pyval \<Rightarrow> pyval \<Rightarrow> pyval outcome" where
  "binop op a b =
     (if op = MatMult then Raises TypeError
      else if is_bitwise op then
        (case (a, b) of (VInt m, VInt n) \<Rightarrow> int_binop op m n | _ \<Rightarrow> Raises TypeError)
      else if is_number a \<and> is_number b then num_binop op a b
      else if op = Add then seq_add a b
      else if op = Mult \<and> (is_sequence a \<or> is_sequence b) then Unmodelled
      else if op = Mod \<and> is_str a then Unmodelled
      else Raises TypeError)"

fun unary :: "unaryop \<Rightarrow> pyval \<Rightarrow> pyval outcome" where
  "unary USub (VInt n) = Returns (VInt (- n))"
| "unary USub (VFloat x) = Returns (VFloat (float_neg x))"
| "unary USub (VComplex x y) = Returns (VComplex (float_neg x) (float_neg y))"
| "unary UAdd (VInt n) = Returns (VInt n)"
| "unary UAdd (VFloat x) = Returns (VFloat x)"
| "unary UAdd (VComplex x y) = Returns (VComplex x y)"
| "unary Invert (VInt n) = Returns (VInt (- n - 1))"
| "unary Not_op v = Unmodelled"
| "unary op v = Raises TypeError"

text \<open>
  \<open>v[i]\<close> for a sequence and an \<open>int\<close>: a negative index counts from the end, an index out
  of range raises \<open>IndexError\<close>.
\<close>

definition index_list :: "'a list \<Rightarrow> int \<Rightarrow> 'a outcome" where
  "index_list xs i =
     (let n = int (length xs); j = (if i < 0 then n + i else i)
      in if 0 \<le> j \<and> j < n then Returns (xs ! nat j) else Raises IndexError)"

fun subscript :: "pyval \<Rightarrow> pyval \<Rightarrow> pyval outcome" where
  "subscript (VTuple vs) (VInt i) = index_list vs i"
| "subscript (VList vs) (VInt i) = index_list vs i"
| "subscript (VStr s) (VInt i) = obind (index_list s i) (\<lambda>c. Returns (VStr [c]))"
| "subscript a i = Raises TypeError"

section \<open>The functions of the name table\<close>

text \<open>
  \<open>math.factorial\<close> as CPython 3.10 and later have it: a negative \<open>int\<close> is the
  \<open>ValueError\<close> "factorial() not defined for negative values"; anything that is not an
  \<open>int\<close>, a \<open>float\<close> included, is a \<open>TypeError\<close> (3.8 and 3.9 still took a \<open>float\<close>
  with an integral value and raised \<open>ValueError\<close> for a fractional one). An argument
  beyond the platform's \<open>LONG_MAX\<close> is an \<open>OverflowError\<close>; only \<open>small\<close> arguments are
  modelled.
\<close>

fun math_factorial :: "pyval list \<Rightarrow> pyval outcome" where
  "math_factorial [VInt n] =
     (if n < 0 then Raises DomainError
      else if small n then Returns (VInt (fact (nat n)))
      else Unmodelled)"
| "math_factorial vs = Raises TypeError"

fun math_sqrt :: "pyval list \<Rightarrow> pyval outcome" where
  "math_sqrt [VInt n] =
     obind (float_of_int n) (\<lambda>x. obind (float_sqrt x) (\<lambda>y. Returns (VFloat y)))"
| "math_sqrt [VFloat x] = obind (float_sqrt x) (\<lambda>y. Returns (VFloat y))"
| "math_sqrt vs = Raises TypeError"

fun builtin_abs :: "pyval list \<Rightarrow> pyval outcome" where
  "builtin_abs [VInt n] = Returns (VInt \<bar>n\<bar>)"
| "builtin_abs [VFloat x] = Returns (VFloat (float_abs x))"
| "builtin_abs [VComplex x y] = Unmodelled"
| "builtin_abs vs = Raises TypeError"

fun builtin_pow :: "pyval list \<Rightarrow> pyval outcome" where
  "builtin_pow [a, b] = binop Pow_op a b"
| "builtin_pow [a, b, c] = Unmodelled"
| "builtin_pow vs = Raises TypeError"

fun builtin_round :: "pyval list \<Rightarrow> pyval outcome" where
  "builtin_round [] = Raises TypeError"
| "builtin_round [VInt n] = Returns (VInt n)"
| "builtin_round vs = Unmodelled"

fun the_ints :: "pyval list \<Rightarrow> int list option" where
  "the_ints [] = Some []"
| "the_ints (VInt n # vs) = map_option (\<lambda>ns. n # ns) (the_ints vs)"
| "the_ints (v # vs) = None"

text \<open>\<open>min\<close> and \<open>max\<close> are modelled for two or more \<open>int\<close>s.\<close>

definition builtin_minmax :: "(int \<Rightarrow> int \<Rightarrow> int) \<Rightarrow> pyval list \<Rightarrow> pyval outcome" where
  "builtin_minmax f vs =
     (if vs = [] then Raises TypeError
      else case the_ints vs of
             Some (n # m # ns) \<Rightarrow> Returns (VInt (fold f (m # ns) n))
           | _ \<Rightarrow> Unmodelled)"

definition call_function :: "string \<Rightarrow> pyval list \<Rightarrow> pyval outcome" where
  "call_function f vs =
     (if f = ''math.factorial'' then math_factorial vs
      else if f = ''math.sqrt'' then math_sqrt vs
      else if f = ''abs'' then builtin_abs vs
      else if f = ''pow'' then builtin_pow vs
      else if f = ''round'' then builtin_round vs
      else if f = ''min'' then builtin_minmax min vs
      else if f = ''max'' then builtin_minmax max vs
      else Unmodelled)"

text \<open>Calling a value: only a function can be called.\<close>

fun call_value :: "pyval \<Rightarrow> pyval list \<Rightarrow> pyval outcome" where
  "call_value (VFunc f) vs = call_function f vs"
| "call_value v vs = Raises TypeError"

section \<open>The evaluator of the host\<close>

fun sequence :: "'a outcome list \<Rightarrow> 'a list outcome" where
  "sequence [] = Returns []"
| "sequence (m # ms) = obind m (\<lambda>x. obind (sequence ms) (\<lambda>xs. Returns (x # xs)))"

fun constant_value :: "const_value \<Rightarrow> pyval outcome" where
  "constant_value (CInt n) = Returns (VInt n)"
| "constant_value (CFloat x) = Returns (VFloat x)"
| "constant_value (CImag y) = Returns (VComplex (Dyadic 0 0) y)"
| "constant_value (CStr s) = Returns (VStr s)"
| "constant_value COther = Unmodelled"

text \<open>
  \<open>eval(compile(node, '<safe>', 'eval'), {'__builtins__': {}}, names)\<close>: a name is looked
  up in \<open>names\<close>; the globals hold only \<open>__builtins__\<close>, an empty dictionary, so any other
  name raises \<open>NameError\<close>. Operands and arguments are evaluated from left to right, the
  function before its arguments.
\<close>

fun py_eval :: "(pystr \<rightharpoonup> pyval) \<Rightarrow> node \<Rightarrow> pyval outcome" where
  "py_eval names (Expression b) = py_eval names b"
| "py_eval names (Constant c) = constant_value c"
| "py_eval names (Name i) =
     (case names i of
        Some v \<Rightarrow> Returns v
      | None \<Rightarrow> if i = ascii ''__builtins__'' then Unmodelled else Raises NameError)"
| "py_eval names (UnaryOp op x) = obind (py_eval names x) (unary op)"
| "py_eval names (BinOp l op r) =
     obind (py_eval names l) (\<lambda>a. obind (py_eval names r) (\<lambda>b. binop op a b))"
| "py_eval names (Tuple es) =
     obind (sequence (map (py_eval names) es)) (\<lambda>vs. Returns (VTuple vs))"
| "py_eval names (List es) =
     obind (sequence (map (py_eval names) es)) (\<lambda>vs. Returns (VList vs))"
| "py_eval names (Subscript v s) =
     obind (py_eval names v) (\<lambda>a. obind (py_eval names s) (\<lambda>i. subscript a i))"
| "py_eval names (Call f as ks) =
     (if ks \<noteq> [] then Unmodelled
      else obind (py_eval names f) (\<lambda>fv.
           obind (sequence (map (py_eval names) as)) (\<lambda>vs. call_value fv vs)))"
| "py_eval names (Attribute v a) = Unmodelled"
| "py_eval names (OpNode op) = Unmodelled"
| "py_eval names (UnaryOpNode op) = Unmodelled"
| "py_eval names Load = Unmodelled"
| "py_eval names (Other c ns) = Unmodelled"

section \<open>The parser of the host, on a fragment\<close>

text \<open>
  \<open>ast.parse(expr, mode='eval')\<close> for one-line expressions built from decimal integer
  and floating-point literals (no exponent, no underscore), imaginary literals, names,
  string literals without escapes, parentheses, tuples, lists, calls with positional
  arguments, subscripts without slices, attribute access and the unary and binary
  operators. The trees are those of CPython 3.9 and later (a subscript holds its index
  directly). Whatever else the host's grammar knows (keywords, comparisons, slices,
  starred arguments, comments, line breaks, other scripts) is \<open>Unmodelled\<close>.
\<close>

datatype token = NUMBER const_value | NAME pystr | STRING pystr | OP string

text \<open>
  A lexeme is a token, a definite error of the host's tokenizer (\<open>Bad\<close>) or something
  outside the fragment (\<open>Unknown\<close>). One \<open>Unknown\<close> makes the whole input \<open>Unmodelled\<close>.
\<close>

datatype lexeme = Tok token | Bad | Unknown

definition is_digit :: "nat \<Rightarrow> bool" where
  "is_digit c \<longleftrightarrow> 48 \<le> c \<and> c \<le> 57"

text \<open>The letters, the underscore, and \<open>U+03C0\<close> (the Greek letter pi).\<close>

definition is_ident_start :: "nat \<Rightarrow> bool" where
  "is_ident_start c \<longleftrightarrow> (65 \<le> c \<and> c \<le> 90) \<or> (97 \<le> c \<and> c \<le> 122) \<or> c = 95 \<or> c = 960"

definition is_ident_char :: "nat \<Rightarrow> bool" where
  "is_ident_char c \<longleftrightarrow> is_ident_start c \<or> is_digit c"

definition kwlist :: "string list" where
  "kwlist =
    [''False'', ''None'', ''True'', ''and'', ''as'', ''assert'', ''async'', ''await'', ''break'',
     ''class'', ''continue'', ''def'', ''del'', ''elif'', ''else'', ''except'', ''finally'', ''for'',
     ''from'', ''global'', ''if'', ''import'', ''in'', ''is'', ''lambda'', ''nonlocal'', ''not'',
     ''or'', ''pass'', ''raise'', ''return'', ''try'', ''while'', ''with'', ''yield'']"

definition digits_value :: "pystr \<Rightarrow> int" where
  "digits_value ds = foldl (\<lambda>a c. 10 * a + (int c - 48)) 0 ds"

text \<open>
  A decimal integer literal. Leading zeros are an error unless every digit is zero; the
  host refuses more than 4300 digits, which is left out.
\<close>

definition int_literal :: "pystr \<Rightarrow> lexeme" where
  "int_literal ds =
     (if 1 < length ds \<and> hd ds = 48 \<and> (\<exists>d \<in> set ds. d \<noteq> 48) then Bad
      else if 4300 < length ds then Unknown
      else Tok (NUMBER (CInt (digits_value ds))))"

text \<open>
  The value of the literal \<open>ds.fs\<close> is \<open>digits_value (ds @ fs) / 10 ^ length fs\<close>. The
  host rounds it correctly, so it is modelled when it is a binary64 value itself.
\<close>

definition float_literal :: "pystr \<Rightarrow> pystr \<Rightarrow> pyfloat outcome" where
  "float_literal ds fs =
     (let n = digits_value (ds @ fs); k = length fs
      in if 5 ^ k dvd n then mk_float (n div 5 ^ k) (- int k) else Unmodelled)"

definition number_value :: "pystr \<Rightarrow> pystr option \<Rightarrow> pyfloat outcome" where
  "number_value ds fr =
     (case fr of None \<Rightarrow> float_literal ds [] | Some fs \<Rightarrow> float_literal ds fs)"

text \<open>
  The lexeme of a number with the integer digits \<open>ds\<close>, the fraction \<open>fr\<close> (if there is
  a point) and the text \<open>r\<close> that follows. A \<open>j\<close> makes it imaginary; any other letter,
  digit or underscore directly behind a number is outside the fragment.
\<close>

definition number_lexeme :: "pystr \<Rightarrow> pystr option \<Rightarrow> pystr \<Rightarrow> lexeme \<times> pystr" where
  "number_lexeme ds fr r =
     (if r \<noteq> [] \<and> (hd r = 106 \<or> hd r = 74) then
        (if tl r \<noteq> [] \<and> is_ident_char (hd (tl r)) then (Unknown, tl r)
         else case number_value ds fr of
                Returns y \<Rightarrow> (Tok (NUMBER (CImag y)), tl r)
              | _ \<Rightarrow> (Unknown, tl r))
      else if r \<noteq> [] \<and> is_ident_char (hd r) then (Unknown, r)
      else case fr of
             None \<Rightarrow> (int_literal ds, r)
           | Some fs \<Rightarrow>
               (case float_literal ds fs of
                  Returns x \<Rightarrow> (Tok (NUMBER (CFloat x)), r)
                | _ \<Rightarrow> (Unknown, r)))"

definition lex_number :: "pystr \<Rightarrow> lexeme \<times> pystr" where
  "lex_number s =
     (let ds = takeWhile is_digit s; r = dropWhile is_digit s
      in if r \<noteq> [] \<and> hd r = 46
         then number_lexeme ds (Some (takeWhile is_digit (tl r))) (dropWhile is_digit (tl r))
         else number_lexeme ds None r)"

text \<open>
  A string literal opened by the quote \<open>q\<close>, \<open>r\<close> being the text behind the quote. A
  backslash in it, and an empty literal directly followed by a third quote, are outside
  the fragment; a literal that is not closed is an error.
\<close>

definition lex_string :: "nat \<Rightarrow> pystr \<Rightarrow> lexeme \<times> pystr" where
  "lex_string q r =
     (let body = takeWhile (\<lambda>c. c \<noteq> q) r; rest = dropWhile (\<lambda>c. c \<noteq> q) r
      in if 92 \<in> set body then (Unknown, [])
         else if rest = [] then (Bad, [])
         else if body = [] \<and> tl rest \<noteq> [] \<and> hd (tl rest) = q then (Unknown, [])
         else (Tok (STRING body), tl rest))"

definition lex_name :: "pystr \<Rightarrow> lexeme \<times> pystr" where
  "lex_name s =
     (let name = takeWhile is_ident_char s; r = dropWhile is_ident_char s
      in if r \<noteq> [] \<and> (hd r = 39 \<or> hd r = 34) then (Unknown, r)
         else if name \<in> set (map ascii kwlist) then (Unknown, r)
         else (Tok (NAME name), r))"

text \<open>An operator or delimiter that starts with \<open>c\<close>, \<open>r\<close> being the text behind it.\<close>

definition lex_op :: "nat \<Rightarrow> pystr \<Rightarrow> lexeme \<times> pystr" where
  "lex_op c r =
     (if c = 42 then (if r \<noteq> [] \<and> hd r = 42 then (Tok (OP ''**''), tl r) else (Tok (OP ''*''), r))
      else if c = 47 then (if r \<noteq> [] \<and> hd r = 47 then (Tok (OP ''//''), tl r) else (Tok (OP ''/''), r))
      else if c = 60 then (if r \<noteq> [] \<and> hd r = 60 then (Tok (OP ''<<''), tl r) else (Unknown, r))
      else if c = 62 then (if r \<noteq> [] \<and> hd r = 62 then (Tok (OP ''>>''), tl r) else (Unknown, r))
      else if c = 46 then (if r \<noteq> [] \<and> hd r = 46 then (Unknown, r) else (Tok (OP ''.''), r))
      else if c = 43 then (Tok (OP ''+''), r)
      else if c = 45 then (Tok (OP ''-''), r)
      else if c = 37 then (Tok (OP ''%''), r)
      else if c = 64 then (Tok (OP ''@''), r)
      else if c = 38 then (Tok (OP ''&''), r)
      else if c = 124 then (Tok (OP ''|''), r)
      else if c = 94 then (Tok (OP ''^''), r)
      else if c = 126 then (Tok (OP ''~''), r)
      else if c = 40 then (Tok (OP ''(''), r)
      else if c = 41 then (Tok (OP '')''), r)
      else if c = 91 then (Tok (OP ''[''), r)
      else if c = 93 then (Tok (OP '']''), r)
      else if c = 44 then (Tok (OP '',''), r)
      else if c = 59 then (Tok (OP '';''), r)
      else if c = 36 \<or> c = 63 \<or> c = 96 \<or> c = 215 \<or> c = 247 \<or> c = 8212 \<or> c = 8364
        then (Bad, r)
      else (Unknown, r))"

text \<open>
  One lexeme from a text that does not start with a blank. \<open>$\<close>, \<open>?\<close>, the backquote and
  the code points \<open>U+00D7\<close>, \<open>U+00F7\<close>, \<open>U+2014\<close>, \<open>U+20AC\<close> are no characters of the
  host's grammar.
\<close>

definition lex_one :: "nat \<Rightarrow> pystr \<Rightarrow> lexeme \<times> pystr" where
  "lex_one c r =
     (if is_digit c \<or> (c = 46 \<and> r \<noteq> [] \<and> is_digit (hd r)) then lex_number (c # r)
      else if is_ident_start c then lex_name (c # r)
      else if c = 39 \<or> c = 34 then lex_string c r
      else lex_op c r)"

text \<open>The lexemes of a line; blanks and tabs between them are skipped.\<close>

fun lex :: "nat \<Rightarrow> pystr \<Rightarrow> lexeme list" where
  "lex 0 s = [Unknown]"
| "lex (Suc n) [] = []"
| "lex (Suc n) (c # r) =
     (if c = 32 \<or> c = 9 then lex n r
      else case lex_one c r of (l, r') \<Rightarrow> l # lex n r')"

fun the_tokens :: "lexeme list \<Rightarrow> token list" where
  "the_tokens [] = []"
| "the_tokens (Tok t # ls) = t # the_tokens ls"
| "the_tokens (l # ls) = the_tokens ls"

definition tokenize :: "pystr \<Rightarrow> token list outcome" where
  "tokenize s =
     (let ls = lex (Suc (length s)) s
      in if Unknown \<in> set ls then Unmodelled
         else if Bad \<in> set ls then Raises PySyntaxError
         else Returns (the_tokens ls))"

text \<open>
  The binary operators by level, the loosest first: \<open>|\<close>, \<open>^\<close>, \<open>&\<close>, the shifts, the
  additive and the multiplicative operators. All of them associate to the left.
\<close>

definition binop_at :: "nat \<Rightarrow> string \<Rightarrow> operator option" where
  "binop_at lvl s =
     (if lvl = 0 \<and> s = ''|'' then Some BitOr
      else if lvl = 1 \<and> s = ''^'' then Some BitXor
      else if lvl = 2 \<and> s = ''&'' then Some BitAnd
      else if lvl = 3 \<and> s = ''<<'' then Some LShift
      else if lvl = 3 \<and> s = ''>>'' then Some RShift
      else if lvl = 4 \<and> s = ''+'' then Some Add
      else if lvl = 4 \<and> s = ''-'' then Some Sub
      else if lvl = 5 \<and> s = ''*'' then Some Mult
      else if lvl = 5 \<and> s = ''/'' then Some Div
      else if lvl = 5 \<and> s = ''//'' then Some FloorDiv
      else if lvl = 5 \<and> s = ''%'' then Some Mod
      else if lvl = 5 \<and> s = ''@'' then Some MatMult
      else None)"

definition unaryop_of :: "string \<Rightarrow> unaryop option" where
  "unaryop_of s =
     (if s = ''-'' then Some USub else if s = ''+'' then Some UAdd
      else if s = ''~'' then Some Invert else None)"

definition starts_with :: "string \<Rightarrow> token list \<Rightarrow> bool" where
  "starts_with s ts = (case ts of OP s' # r \<Rightarrow> s' = s | _ \<Rightarrow> False)"

text \<open>
  Recursive descent. A parser takes the tokens and returns its result with the tokens
  left over. The parser of a whole expression is a parameter \<open>p\<close> of the parsers of the
  parts that hold expressions in brackets, and the knot is tied in \<open>parse_expr\<close>, whose
  first argument bounds the nesting of brackets. The first argument of the other
  parsers bounds the length of a loop.
\<close>

type_synonym 'a parser = "token list \<Rightarrow> ('a \<times> token list) outcome"

text \<open>
  Expressions separated by commas up to the closing bracket \<open>closer\<close>, with one comma
  allowed before it. The flag tells whether a comma was seen.
\<close>

primrec parse_seq :: "nat \<Rightarrow> node parser \<Rightarrow> string \<Rightarrow> (node list \<times> bool) parser" where
  "parse_seq 0 p closer ts = Unmodelled"
| "parse_seq (Suc n) p closer ts =
     obind (p ts) (\<lambda>(e, r).
       if starts_with closer r then Returns (([e], False), tl r)
       else if starts_with '','' r then
         (if starts_with closer (tl r) then Returns (([e], True), tl (tl r))
          else obind (parse_seq n p closer (tl r)) (\<lambda>((es, c), r'). Returns ((e # es, True), r')))
       else Raises PySyntaxError)"

text \<open>
  An atom. A \<open>*\<close> or \<open>**\<close> where an operand is due would be a starred expression, and two
  string literals in a row are joined by the host: both are outside the fragment.
\<close>

definition parse_atom :: "node parser \<Rightarrow> node parser" where
  "parse_atom p ts =
     (case ts of
        [] \<Rightarrow> Raises PySyntaxError
      | NUMBER c # r \<Rightarrow> Returns (Constant c, r)
      | NAME i # r \<Rightarrow> Returns (Name i, r)
      | STRING s # r \<Rightarrow>
          (case r of STRING t # r' \<Rightarrow> Unmodelled | _ \<Rightarrow> Returns (Constant (CStr s), r))
      | OP s # r \<Rightarrow>
          if s = ''('' then
            (if starts_with '')'' r then Returns (Tuple [], tl r)
             else obind (parse_seq (Suc (length r)) p '')'' r)
                    (\<lambda>((es, c), r'). Returns (if c then Tuple es else hd es, r')))
          else if s = ''['' then
            (if starts_with '']'' r then Returns (List [], tl r)
             else obind (parse_seq (Suc (length r)) p '']'' r)
                    (\<lambda>((es, c), r'). Returns (List es, r')))
          else if s = ''*'' \<or> s = ''**'' then Unmodelled
          else Raises PySyntaxError)"

text \<open>The calls, subscripts and attribute accesses behind an atom \<open>b\<close>.\<close>

primrec parse_trailers :: "nat \<Rightarrow> node parser \<Rightarrow> node \<Rightarrow> node parser" where
  "parse_trailers 0 p b ts = Unmodelled"
| "parse_trailers (Suc n) p b ts =
     (if starts_with ''('' ts then
        (if starts_with '')'' (tl ts) then parse_trailers n p (Call b [] []) (tl (tl ts))
         else obind (parse_seq (Suc (length ts)) p '')'' (tl ts))
                (\<lambda>((es, c), r). parse_trailers n p (Call b es []) r))
      else if starts_with ''['' ts then
        obind (parse_seq (Suc (length ts)) p '']'' (tl ts))
          (\<lambda>((es, c), r). parse_trailers n p (Subscript b (if c then Tuple es else hd es)) r)
      else if starts_with ''.'' ts then
        (case tl ts of
           NAME a # r \<Rightarrow> parse_trailers n p (Attribute b a) r
         | _ \<Rightarrow> Raises PySyntaxError)
      else Returns (b, ts))"

text \<open>
  Unary operators and \<open>**\<close>: a unary operator binds less tightly than \<open>**\<close> on its left
  and more tightly on its right, and \<open>**\<close> associates to the right.
\<close>

primrec parse_factor :: "nat \<Rightarrow> node parser \<Rightarrow> node parser" where
  "parse_factor 0 p ts = Unmodelled"
| "parse_factor (Suc n) p ts =
     (case (case ts of OP s # r \<Rightarrow> unaryop_of s | _ \<Rightarrow> None) of
        Some op \<Rightarrow> obind (parse_factor n p (tl ts)) (\<lambda>(x, r). Returns (UnaryOp op x, r))
      | None \<Rightarrow>
          obind (parse_atom p ts) (\<lambda>(a, r).
          obind (parse_trailers (Suc (length r)) p a r) (\<lambda>(x, r').
            if starts_with ''**'' r'
            then obind (parse_factor n p (tl r')) (\<lambda>(y, r''). Returns (BinOp x Pow_op y, r''))
            else Returns (x, r'))))"

text \<open>
  The operators of one level behind a left operand \<open>l\<close>, \<open>sub\<close> parsing the operands: they
  associate to the left.
\<close>

primrec parse_chain :: "nat \<Rightarrow> node parser \<Rightarrow> nat \<Rightarrow> node \<Rightarrow> node parser" where
  "parse_chain 0 sub lvl l ts = Unmodelled"
| "parse_chain (Suc n) sub lvl l ts =
     (case (case ts of OP s # r \<Rightarrow> binop_at lvl s | _ \<Rightarrow> None) of
        Some op \<Rightarrow> obind (sub (tl ts)) (\<lambda>(x, r). parse_chain n sub lvl (BinOp l op x) r)
      | None \<Rightarrow> Returns (l, ts))"

text \<open>\<open>parse_binary k\<close> parses the \<open>k\<close> tightest levels of binary operators.\<close>

primrec parse_binary :: "nat \<Rightarrow> node parser \<Rightarrow> node parser" where
  "parse_binary 0 p ts = parse_factor (Suc (length ts)) p ts"
| "parse_binary (Suc k) p ts =
     obind (parse_binary k p ts)
       (\<lambda>(l, r). parse_chain (Suc (length r)) (parse_binary k p) (5 - k) l r)"

primrec parse_expr :: "nat \<Rightarrow> node parser" where
  "parse_expr 0 ts = Unmodelled"
| "parse_expr (Suc n) ts = parse_binary 6 (parse_expr n) ts"

text \<open>The whole input: expressions separated by commas, up to the end.\<close>

primrec parse_exprs :: "nat \<Rightarrow> node parser \<Rightarrow> token list \<Rightarrow> (node list \<times> bool) outcome" where
  "parse_exprs 0 p ts = Unmodelled"
| "parse_exprs (Suc n) p ts =
     obind (p ts) (\<lambda>(e, r).
       if r = [] then Returns ([e], False)
       else if starts_with '','' r then
         (if tl r = [] then Returns ([e], True)
          else obind (parse_exprs n p (tl r)) (\<lambda>(es, c). Returns (e # es, True)))
       else Raises PySyntaxError)"

text \<open>
  The host bounds the nesting of brackets (at 200 a \<open>SyntaxError\<close>) and the depth of
  its own recursion in the parser and the compiler. The fragment stays clear of every
  such bound: an input of more than 100 code points is outside it. Control characters
  (line breaks among them) and code points that are no characters are outside it too.
  An empty input is an error, and so is a blank or a tab at the start
  (\<open>IndentationError\<close>).
\<close>

definition ast_parse :: "pystr \<Rightarrow> node outcome" where
  "ast_parse s =
     (if 100 < length s then Unmodelled
      else if \<exists>c \<in> set s. (c < 32 \<and> c \<noteq> 9) \<or> c = 127 \<or> (55296 \<le> c \<and> c \<le> 57343) \<or> 1114111 < c
        then Unmodelled
      else if s = [] \<or> hd s = 32 \<or> hd s = 9 then
        (case tokenize s of Unmodelled \<Rightarrow> Unmodelled | _ \<Rightarrow> Raises PySyntaxError)
      else obind (tokenize s) (\<lambda>ts.
        obind (parse_exprs (Suc (length ts)) (parse_expr (Suc (length ts))) ts) (\<lambda>(es, c).
          Returns (Expression (if c then Tuple es else hd es)))))"

section \<open>The two evaluators\<close>

text \<open>
  The replacement chain of \<open>SafeEvaluator.evaluate\<close>, with the literals as the file has
  them: \<open>U+00C3 U+2014\<close> to \<open>*\<close>, \<open>U+00C3 U+00B7\<close> to \<open>/\<close>, \<open>^\<close> to \<open>**\<close>,
  \<open>U+00CF U+20AC\<close> to \<open>pi\<close>.
\<close>

definition normalize_main :: "pystr \<Rightarrow> pystr" where
  "normalize_main expr =
     replace [207, 8364] (ascii ''pi'')
       (replace (ascii ''^'') (ascii ''**'')
         (replace [195, 183] (ascii ''/'')
           (replace [195, 8212] (ascii ''*'') expr)))"

text \<open>The chain of \<open>safe_eval\<close>: \<open>U+00D7\<close> to \<open>*\<close>, \<open>U+00F7\<close> to \<open>/\<close>, \<open>^\<close> to \<open>**\<close>.\<close>

definition normalize_reservation :: "pystr \<Rightarrow> pystr" where
  "normalize_reservation expr =
     replace (ascii ''^'') (ascii ''**'')
       (replace [247] (ascii ''/'')
         (replace [215] (ascii ''*'') expr))"

text \<open>
  \<open>if isinstance(result, complex)\<close>: a zero imaginary part gives the real part, any other
  complex value raises.
\<close>

fun complex_check :: "pyval outcome \<Rightarrow> pyval outcome" where
  "complex_check (Returns (VComplex re im)) =
     (if float_is_zero im then Returns (VFloat re) else Raises ComplexResult)"
| "complex_check r = r"

text \<open>
  \<open>SafeEvaluator.evaluate\<close> of \<open>Main.py\<close>. The host's \<open>ast.parse(expr, mode='eval')\<close> and
  its \<open>eval(compile(node, ...), {'__builtins__': {}}, ALLOWED_NAMES)\<close> are the parameters
  \<open>parse\<close> and \<open>ev\<close>. Only the host's \<open>SyntaxError\<close> is caught and turned into the
  \<open>ValueError\<close> of the kind \<open>SyntaxError\<close>; any other exception of the parser passes.
\<close>

definition evaluate_with ::
  "(pystr \<Rightarrow> node outcome) \<Rightarrow> (node \<Rightarrow> pyval outcome) \<Rightarrow> pystr \<Rightarrow> pyval outcome" where
  "evaluate_with parse ev expr =
     (if expr = [] \<or> strip expr = [] then Raises EmptyExpression
      else
        case parse (normalize_main (strip expr)) of
          Raises e \<Rightarrow> if e = PySyntaxError then Raises SyntaxError else Raises e
        | Unmodelled \<Rightarrow> Unmodelled
        | Returns node \<Rightarrow>
            (case check_nodes ALLOWED_NODES ALLOWED_NAMES (ast_walk node) of
               Some e \<Rightarrow> Raises e
             | None \<Rightarrow> complex_check (ev node)))"

text \<open>
  \<open>safe_eval\<close> of \<open>Reservation.py\<close>: no emptiness test, no trimming, every exception of the
  parser is turned into the \<open>ValueError\<close>, and the result is returned as it is.
\<close>

definition safe_eval_with ::
  "(pystr \<Rightarrow> node outcome) \<Rightarrow> (node \<Rightarrow> pyval outcome) \<Rightarrow> pystr \<Rightarrow> pyval outcome" where
  "safe_eval_with parse ev expr =
     (case parse (normalize_reservation expr) of
        Raises e \<Rightarrow> Raises SyntaxError
      | Unmodelled \<Rightarrow> Unmodelled
      | Returns node \<Rightarrow>
          (case check_nodes ALLOWED_NODES_reservation ALLOWED_NAMES_reservation (ast_walk node) of
             Some e \<Rightarrow> Raises e
           | None \<Rightarrow> ev node))"

text \<open>The two evaluators on the host as modelled.\<close>

definition evaluate :: "pystr \<Rightarrow> pyval outcome" where
  "evaluate = evaluate_with ast_parse (py_eval ALLOWED_NAMES)"

definition safe_eval :: "pystr \<Rightarrow> pyval outcome" where
  "safe_eval = safe_eval_with ast_parse (py_eval ALLOWED_NAMES_reservation)"

section \<open>Empty input\<close>

lemma strip_empty_iff: "strip s = [] \<longleftrightarrow> (\<forall>c \<in> set s. isspace c)"
proof
  assume "strip s = []"
  then have "dropWhile isspace (rev (dropWhile isspace s)) = []"
    by (simp add: strip_def)
  then have "\<forall>c \<in> set (dropWhile isspace s). isspace c"
    by simp
  moreover have "\<forall>c \<in> set (takeWhile isspace s). isspace c"
    by (auto dest: set_takeWhileD)
  moreover have "set s = set (takeWhile isspace s) \<union> set (dropWhile isspace s)"
    by (metis set_append takeWhile_dropWhile_id)
  ultimately show "\<forall>c \<in> set s. isspace c"
    by blast
next
  assume "\<forall>c \<in> set s. isspace c"
  then have "dropWhile isspace s = []"
    by simp
  then have "strip s = rev (dropWhile isspace (rev []))"
    by (simp only: strip_def)
  then show "strip s = []"
    by simp
qed

text \<open>
  C5. An input that is empty or holds only whitespace makes \<open>SafeEvaluator.evaluate\<close>
  raise \<open>ValueError("Empty expression")\<close>, whatever the host's parser and evaluator would
  do: the test comes before every other step, so no other kind of error can appear.
\<close>

theorem evaluate_empty_expression:
  "\<forall>c \<in> set expr. isspace c \<Longrightarrow> evaluate_with parse ev expr = Raises EmptyExpression"
  by (simp add: evaluate_with_def strip_empty_iff)

theorem evaluate_empty_expression_witness:
  "list_all isspace (ascii ''  '') \<and>
   evaluate_with (\<lambda>s. Raises PySyntaxError) (\<lambda>n. Returns (VInt 0)) (ascii ''  '')
     = Raises EmptyExpression"
proof -
  have h: "\<forall>c \<in> set (ascii ''  ''). isspace c"
    by (simp add: ascii_def isspace_def)
  show ?thesis
    using h evaluate_empty_expression [OF h] by (simp add: list_all_iff)
qed

section \<open>Evaluation of the model on concrete inputs\<close>

text \<open>
  The equations below let the simplifier run the model on a given text: the binding of
  outcomes is evaluated from the left, and the levels of the binary operators are
  unfolded one by one.
\<close>

lemma obind_simps [simp]:
  "obind (Returns x) f = f x"
  "obind (Raises e) f = Raises e"
  "obind Unmodelled f = Unmodelled"
  by (simp_all add: obind_def)

lemma obind_weak_cong: "m = m' \<Longrightarrow> obind m f = obind m' f"
  by simp

lemma parse_binary_unfold:
  "parse_binary 6 p ts =
     obind (parse_binary 5 p ts) (\<lambda>(l, r). parse_chain (Suc (length r)) (parse_binary 5 p) 0 l r)"
  "parse_binary 5 p ts =
     obind (parse_binary 4 p ts) (\<lambda>(l, r). parse_chain (Suc (length r)) (parse_binary 4 p) 1 l r)"
  "parse_binary 4 p ts =
     obind (parse_binary 3 p ts) (\<lambda>(l, r). parse_chain (Suc (length r)) (parse_binary 3 p) 2 l r)"
  "parse_binary 3 p ts =
     obind (parse_binary 2 p ts) (\<lambda>(l, r). parse_chain (Suc (length r)) (parse_binary 2 p) 3 l r)"
  "parse_binary 2 p ts =
     obind (parse_binary 1 p ts) (\<lambda>(l, r). parse_chain (Suc (length r)) (parse_binary 1 p) 4 l r)"
  "parse_binary 1 p ts =
     obind (parse_binary 0 p ts) (\<lambda>(l, r). parse_chain (Suc (length r)) (parse_binary 0 p) 5 l r)"
  by (simp_all add: eval_nat_numeral)

lemmas lex_defs = tokenize_def lex_one_def lex_number_def number_lexeme_def number_value_def
  int_literal_def float_literal_def digits_value_def is_digit_def is_ident_start_def
  is_ident_char_def lex_string_def lex_name_def lex_op_def kwlist_def ascii_def

lemmas parse_defs = ast_parse_def parse_atom_def starts_with_def binop_at_def unaryop_of_def
  parse_binary_unfold Let_def

lemmas table_defs = ast_walk_def ALLOWED_NODES_def ALLOWED_NODES_reservation_def
  ALLOWED_NAMES_def ALLOWED_NAMES_reservation_def math_names_def math_dir_def math_getattr_def
  map_add_def

lemmas host_defs = call_function_def float_of_int_def int_fits_float_def mk_float_def
  binary64_def isqrt_def binop_def num_binop_def small_def is_divide_def is_bitwise_def
  is_complex_def is_str_def index_list_def dyadic_quot_def builtin_minmax_def fact_numeral

lemmas eval_defs = evaluate_def evaluate_with_def safe_eval_def safe_eval_with_def strip_def
  isspace_def normalize_main_def normalize_reservation_def lex_defs parse_defs table_defs
  host_defs

section \<open>The validation loop\<close>

lemma check_nodes_None_iff:
  "check_nodes allowed names ns = None \<longleftrightarrow>
     (\<forall>n \<in> set ns. class_name n \<in> set allowed \<and> unknown_name names n = None)"
  by (induction ns) (auto split: option.splits)

lemma check_nodes_Some:
  assumes "check_nodes allowed names ns = Some e"
  shows "(\<exists>n \<in> set ns. e = DisallowedConstruct (class_name n) \<and> class_name n \<notin> set allowed) \<or>
         (\<exists>i. Name i \<in> set ns \<and> e = UnknownName i \<and> names i = None)"
  using assms
proof (induction ns)
  case Nil
  then show ?case by simp
next
  case (Cons n ns)
  show ?case
  proof (cases "class_name n \<in> set allowed")
    case False
    with Cons.prems show ?thesis by auto
  next
    case allowed: True
    show ?thesis
    proof (cases "unknown_name names n")
      case None
      with allowed Cons.prems have "check_nodes allowed names ns = Some e" by simp
      from Cons.IH [OF this] show ?thesis by auto
    next
      case (Some i)
      then have "n = Name i \<and> names i = None"
        by (cases n) (auto split: if_splits)
      with allowed Some Cons.prems show ?thesis by auto
    qed
  qed
qed

lemma check_nodes_rejects:
  assumes "n \<in> set ns"
    and "class_name n \<notin> set allowed \<or> unknown_name names n \<noteq> None"
  shows "\<exists>e. check_nodes allowed names ns = Some e"
  using assms by (cases "check_nodes allowed names ns") (auto simp: check_nodes_None_iff)

section \<open>From the text to the result\<close>

lemma strip_Nil [simp]: "strip [] = []"
  by (simp add: strip_def)

text \<open>
  When the text is not blank, parses and passes the validation loop, the result of
  \<open>SafeEvaluator.evaluate\<close> is the host's result after the test for \<open>complex\<close>; when the
  loop raises, that is the result, and the host's evaluator is not run.
\<close>

lemma evaluate_with_checked:
  assumes "strip expr \<noteq> []"
    and "parse (normalize_main (strip expr)) = Returns tree"
    and "check_nodes ALLOWED_NODES ALLOWED_NAMES (ast_walk tree) = None"
  shows "evaluate_with parse ev expr = complex_check (ev tree)"
proof -
  from assms(1) have "expr \<noteq> []" by auto
  with assms show ?thesis by (simp add: evaluate_with_def)
qed

lemma evaluate_with_rejected:
  assumes "strip expr \<noteq> []"
    and "parse (normalize_main (strip expr)) = Returns tree"
    and "check_nodes ALLOWED_NODES ALLOWED_NAMES (ast_walk tree) = Some e"
  shows "evaluate_with parse ev expr = Raises e"
proof -
  from assms(1) have "expr \<noteq> []" by auto
  with assms show ?thesis by (simp add: evaluate_with_def)
qed

lemma safe_eval_with_checked:
  assumes "parse (normalize_reservation expr) = Returns tree"
    and "check_nodes ALLOWED_NODES_reservation ALLOWED_NAMES_reservation (ast_walk tree) = None"
  shows "safe_eval_with parse ev expr = ev tree"
  using assms by (simp add: safe_eval_with_def)

lemma safe_eval_with_rejected:
  assumes "parse (normalize_reservation expr) = Returns tree"
    and "check_nodes ALLOWED_NODES_reservation ALLOWED_NAMES_reservation (ast_walk tree) = Some e"
  shows "safe_eval_with parse ev expr = Raises e"
  using assms by (simp add: safe_eval_with_def)

text \<open>
  C5, the variant of \<open>Reservation.py\<close>. \<open>safe_eval\<close> has no test for an empty text and
  does not trim: two blanks, and the empty text, go to the parser, and its failure comes
  back as \<open>ValueError("Invalid expression: ...")\<close>, the kind \<open>SyntaxError\<close>. (The caller
  in \<open>Reservation.py\<close> returns on an empty entry before it calls \<open>safe_eval\<close>.)
\<close>

theorem safe_eval_blank_is_syntax_error:
  "safe_eval (ascii ''  '') = Raises SyntaxError \<and> safe_eval [] = Raises SyntaxError"
  by (simp add: eval_defs cong: obind_weak_cong)

section \<open>Complex results\<close>

text \<open>
  C10. When the host's evaluation yields a \<open>complex\<close> whose imaginary part equals zero,
  \<open>SafeEvaluator.evaluate\<close> returns the real part, a \<open>float\<close>.
\<close>

theorem evaluate_complex_zero_imaginary:
  assumes "strip expr \<noteq> []"
    and "parse (normalize_main (strip expr)) = Returns tree"
    and "check_nodes ALLOWED_NODES ALLOWED_NAMES (ast_walk tree) = None"
    and "ev tree = Returns (VComplex re im)"
    and "float_is_zero im"
  shows "evaluate_with parse ev expr = Returns (VFloat re)"
  using assms by (simp add: evaluate_with_checked)

text \<open>The product \<open>1j*1j\<close> is \<open>(-1+0j)\<close>, and the result is \<open>-1.0\<close>.\<close>

theorem evaluate_complex_zero_imaginary_witness:
  "strip (ascii ''1j*1j'') \<noteq> [] \<and>
   ast_parse (normalize_main (strip (ascii ''1j*1j''))) =
     Returns (Expression (BinOp (Constant (CImag (Dyadic 1 0))) Mult (Constant (CImag (Dyadic 1 0))))) \<and>
   check_nodes ALLOWED_NODES ALLOWED_NAMES
     (ast_walk (Expression (BinOp (Constant (CImag (Dyadic 1 0))) Mult (Constant (CImag (Dyadic 1 0))))))
     = None \<and>
   py_eval ALLOWED_NAMES
     (Expression (BinOp (Constant (CImag (Dyadic 1 0))) Mult (Constant (CImag (Dyadic 1 0)))))
     = Returns (VComplex (Dyadic (- 1) 0) (Dyadic 0 0)) \<and>
   float_is_zero (Dyadic 0 0) \<and>
   evaluate_with ast_parse (py_eval ALLOWED_NAMES) (ascii ''1j*1j'') = Returns (VFloat (Dyadic (- 1) 0))"
proof -
  let ?t = "Expression (BinOp (Constant (CImag (Dyadic 1 0))) Mult (Constant (CImag (Dyadic 1 0))))"
  have h1: "strip (ascii ''1j*1j'') \<noteq> []"
    by (simp add: strip_def isspace_def ascii_def)
  have h2: "ast_parse (normalize_main (strip (ascii ''1j*1j''))) = Returns ?t"
    by (simp add: eval_defs cong: obind_weak_cong)
  have h3: "check_nodes ALLOWED_NODES ALLOWED_NAMES (ast_walk ?t) = None"
    by (simp add: table_defs)
  have h4: "py_eval ALLOWED_NAMES ?t = Returns (VComplex (Dyadic (- 1) 0) (Dyadic 0 0))"
    by (simp add: host_defs cong: obind_weak_cong)
  have h5: "float_is_zero (Dyadic 0 0)"
    by simp
  from evaluate_complex_zero_imaginary
         [where parse = ast_parse and ev = "py_eval ALLOWED_NAMES", OF h1 h2 h3 h4 h5]
       h1 h2 h3 h4 h5
  show ?thesis
    by blast
qed

text \<open>
  C4, as the code has it. When the host's evaluation yields a \<open>complex\<close> whose imaginary
  part differs from zero, \<open>SafeEvaluator.evaluate\<close> raises
  \<open>ValueError("Complex numbers not supported")\<close>. \<open>safe_eval\<close> of \<open>Reservation.py\<close> has no
  such test and returns whatever the host's evaluation yields, a \<open>complex\<close> included.
\<close>

theorem evaluate_complex_result:
  "(strip expr \<noteq> [] \<and> parse (normalize_main (strip expr)) = Returns tree \<and>
    check_nodes ALLOWED_NODES ALLOWED_NAMES (ast_walk tree) = None \<and>
    ev tree = Returns (VComplex re im) \<and> \<not> float_is_zero im
      \<longrightarrow> evaluate_with parse ev expr = Raises ComplexResult) \<and>
   (parse (normalize_reservation expr) = Returns tree \<and>
    check_nodes ALLOWED_NODES_reservation ALLOWED_NAMES_reservation (ast_walk tree) = None \<and>
    ev tree = Returns v
      \<longrightarrow> safe_eval_with parse ev expr = Returns v)"
  by (simp add: evaluate_with_checked safe_eval_with_checked)

theorem evaluate_complex_result_witness:
  "strip (ascii ''1j'') \<noteq> [] \<and>
   ast_parse (normalize_main (strip (ascii ''1j''))) = Returns (Expression (Constant (CImag (Dyadic 1 0)))) \<and>
   ast_parse (normalize_reservation (ascii ''1j'')) = Returns (Expression (Constant (CImag (Dyadic 1 0)))) \<and>
   check_nodes ALLOWED_NODES ALLOWED_NAMES (ast_walk (Expression (Constant (CImag (Dyadic 1 0))))) = None \<and>
   check_nodes ALLOWED_NODES_reservation ALLOWED_NAMES_reservation
     (ast_walk (Expression (Constant (CImag (Dyadic 1 0))))) = None \<and>
   py_eval ALLOWED_NAMES (Expression (Constant (CImag (Dyadic 1 0))))
     = Returns (VComplex (Dyadic 0 0) (Dyadic 1 0)) \<and>
   py_eval ALLOWED_NAMES_reservation (Expression (Constant (CImag (Dyadic 1 0))))
     = Returns (VComplex (Dyadic 0 0) (Dyadic 1 0)) \<and>
   \<not> float_is_zero (Dyadic 1 0) \<and>
   evaluate_with ast_parse (py_eval ALLOWED_NAMES) (ascii ''1j'') = Raises ComplexResult \<and>
   safe_eval_with ast_parse (py_eval ALLOWED_NAMES_reservation) (ascii ''1j'')
     = Returns (VComplex (Dyadic 0 0) (Dyadic 1 0))"
proof -
  let ?t = "Expression (Constant (CImag (Dyadic 1 0)))"
  have h1: "strip (ascii ''1j'') \<noteq> []"
    by (simp add: strip_def isspace_def ascii_def)
  have h2: "ast_parse (normalize_main (strip (ascii ''1j''))) = Returns ?t"
    by (simp add: eval_defs cong: obind_weak_cong)
  have h2': "ast_parse (normalize_reservation (ascii ''1j'')) = Returns ?t"
    by (simp add: eval_defs cong: obind_weak_cong)
  have h3: "check_nodes ALLOWED_NODES ALLOWED_NAMES (ast_walk ?t) = None"
    by (simp add: table_defs)
  have h3': "check_nodes ALLOWED_NODES_reservation ALLOWED_NAMES_reservation (ast_walk ?t) = None"
    by (simp add: table_defs)
  have h4: "py_eval ALLOWED_NAMES ?t = Returns (VComplex (Dyadic 0 0) (Dyadic 1 0))"
    by simp
  have h4': "py_eval ALLOWED_NAMES_reservation ?t = Returns (VComplex (Dyadic 0 0) (Dyadic 1 0))"
    by simp
  have h5: "\<not> float_is_zero (Dyadic 1 0)"
    by simp
  from evaluate_complex_result
         [of "ascii ''1j''" ast_parse ?t "py_eval ALLOWED_NAMES" "Dyadic 0 0" "Dyadic 1 0"
             "VComplex (Dyadic 0 0) (Dyadic 1 0)"]
       h1 h2 h3 h4 h5
  have a: "evaluate_with ast_parse (py_eval ALLOWED_NAMES) (ascii ''1j'') = Raises ComplexResult"
    by blast
  from evaluate_complex_result
         [of "ascii ''1j''" ast_parse ?t "py_eval ALLOWED_NAMES_reservation" "Dyadic 0 0" "Dyadic 1 0"
             "VComplex (Dyadic 0 0) (Dyadic 1 0)"]
       h2' h3' h4'
  have b: "safe_eval_with ast_parse (py_eval ALLOWED_NAMES_reservation) (ascii ''1j'')
             = Returns (VComplex (Dyadic 0 0) (Dyadic 1 0))"
    by blast
  from h1 h2 h2' h3 h3' h4 h4' h5 a b show ?thesis
    by blast
qed

text \<open>
  C4, as the claim states it, fails on both evaluators. The square root of \<open>-1\<close> is the
  imaginary unit, and \<open>SafeEvaluator.evaluate\<close> fails on \<open>sqrt(-1)\<close> with the \<open>ValueError\<close>
  of the host's \<open>math.sqrt\<close> ("math domain error"), not with the complex-result error;
  \<open>safe_eval\<close> returns the complex value of \<open>1j\<close>.
\<close>

theorem evaluate_sqrt_minus_one_domain_error:
  "evaluate (ascii ''sqrt(-1)'') = Raises DomainError \<and>
   safe_eval (ascii ''1j'') = Returns (VComplex (Dyadic 0 0) (Dyadic 1 0))"
  by (simp add: eval_defs cong: obind_weak_cong)

section \<open>Subscripts in \<open>Reservation.py\<close>\<close>

text \<open>
  C3. \<open>Subscript\<close>, \<open>Index\<close> and \<open>Slice\<close> are in the whitelist of \<open>Reservation.py\<close>, and
  \<open>safe_eval\<close> evaluates a subscript: \<open>(1,2)[0]\<close> is \<open>1\<close>, \<open>[7,8][1]\<close> is \<open>8\<close>.
  \<open>SafeEvaluator.evaluate\<close> of \<open>Main.py\<close> rejects the same text as a disallowed construct.
\<close>

theorem safe_eval_subscript:
  "''Subscript'' \<in> set ALLOWED_NODES_reservation \<and>
   ''Index'' \<in> set ALLOWED_NODES_reservation \<and>
   ''Slice'' \<in> set ALLOWED_NODES_reservation \<and>
   safe_eval (ascii ''(1,2)[0]'') = Returns (VInt 1) \<and>
   safe_eval (ascii ''[7,8][1]'') = Returns (VInt 8) \<and>
   evaluate (ascii ''(1,2)[0]'') = Raises (DisallowedConstruct ''Subscript'')"
  by (simp add: eval_defs cong: obind_weak_cong)

section \<open>The alias glyphs\<close>

text \<open>
  C7. The multiplication sign is the code point 215. The replacement chain of \<open>Main.py\<close>
  looks for the two code points 195, 8212 instead and leaves \<open>2\<times>3\<close> as it is, so the
  host's parser refuses it and \<open>SafeEvaluator.evaluate\<close> raises the syntax error, while
  \<open>2*3\<close> is \<open>6\<close>. \<open>safe_eval\<close> of \<open>Reservation.py\<close> replaces the sign and returns \<open>6\<close>.
  The same holds for the division sign (247) and, in \<open>Main.py\<close>, for the Greek letter pi
  (960), which is then an unknown name.
\<close>

theorem evaluate_multiplication_sign:
  "normalize_main [50, 215, 51] = [50, 215, 51] \<and>
   evaluate [50, 215, 51] = Raises SyntaxError \<and>
   evaluate (ascii ''2*3'') = Returns (VInt 6) \<and>
   normalize_reservation [50, 215, 51] = ascii ''2*3'' \<and>
   safe_eval [50, 215, 51] = Returns (VInt 6) \<and>
   evaluate [54, 247, 51] = Raises SyntaxError \<and>
   safe_eval [54, 247, 51] = Returns (VFloat (Dyadic 1 1)) \<and>
   evaluate [960] = Raises (UnknownName [960]) \<and>
   evaluate (ascii ''2^3'') = Returns (VInt 8) \<and>
   safe_eval (ascii ''2^3'') = Returns (VInt 8)"
  by (simp add: eval_defs cong: obind_weak_cong)

section \<open>Names outside the table and attribute access\<close>

lemma check_nodes_foreign:
  assumes "n \<in> set ns"
    and "class_name n \<notin> set allowed \<or> (\<exists>i. n = Name i \<and> names i = None)"
  shows "\<exists>e. check_nodes allowed names ns = Some e \<and>
             ((\<exists>c. e = DisallowedConstruct c \<and> c \<notin> set allowed) \<or>
              (\<exists>i. e = UnknownName i \<and> names i = None))"
proof -
  from assms(2) have "class_name n \<notin> set allowed \<or> unknown_name names n \<noteq> None"
    by auto
  from check_nodes_rejects [OF assms(1) this]
  obtain e where e: "check_nodes allowed names ns = Some e" ..
  from check_nodes_Some [OF e] e show ?thesis
    by blast
qed

text \<open>
  C1, as the code has it. A tree in which \<open>ast.walk\<close> finds an \<open>Attribute\<close> node, or a
  \<open>Name\<close> node whose identifier is not in the table, is rejected by the validation loop:
  the evaluator raises the error of the kind \<open>DisallowedConstruct\<close> or \<open>UnknownName\<close>,
  the same error whatever the host's evaluation would do, so nothing is evaluated or
  called. In particular \<open>__import__('os')\<close> fails with \<open>UnknownName\<close>.
\<close>

theorem foreign_name_or_attribute_rejected:
  "(strip expr \<noteq> [] \<and> parse (normalize_main (strip expr)) = Returns tree \<and>
    n \<in> set (ast_walk tree) \<and>
    (class_name n = ''Attribute'' \<or> (\<exists>i. n = Name i \<and> ALLOWED_NAMES i = None))
      \<longrightarrow> (\<exists>e. (\<forall>ev. evaluate_with parse ev expr = Raises e) \<and>
                ((\<exists>c. e = DisallowedConstruct c \<and> c \<notin> set ALLOWED_NODES) \<or>
                 (\<exists>i. e = UnknownName i \<and> ALLOWED_NAMES i = None)))) \<and>
   (parse (normalize_reservation expr) = Returns tree \<and>
    n \<in> set (ast_walk tree) \<and>
    (class_name n = ''Attribute'' \<or> (\<exists>i. n = Name i \<and> ALLOWED_NAMES_reservation i = None))
      \<longrightarrow> (\<exists>e. (\<forall>ev. safe_eval_with parse ev expr = Raises e) \<and>
                ((\<exists>c. e = DisallowedConstruct c \<and> c \<notin> set ALLOWED_NODES_reservation) \<or>
                 (\<exists>i. e = UnknownName i \<and> ALLOWED_NAMES_reservation i = None)))) \<and>
   evaluate (ascii ''__import__('os')'') = Raises (UnknownName (ascii ''__import__'')) \<and>
   safe_eval (ascii ''__import__('os')'') = Raises (UnknownName (ascii ''__import__''))"
proof (intro conjI impI)
  assume a: "strip expr \<noteq> [] \<and> parse (normalize_main (strip expr)) = Returns tree \<and>
    n \<in> set (ast_walk tree) \<and>
    (class_name n = ''Attribute'' \<or> (\<exists>i. n = Name i \<and> ALLOWED_NAMES i = None))"
  have "''Attribute'' \<notin> set ALLOWED_NODES"
    by (simp add: ALLOWED_NODES_def)
  with a have "class_name n \<notin> set ALLOWED_NODES \<or> (\<exists>i. n = Name i \<and> ALLOWED_NAMES i = None)"
    by auto
  with a check_nodes_foreign [of n "ast_walk tree" ALLOWED_NODES ALLOWED_NAMES]
  obtain e where e: "check_nodes ALLOWED_NODES ALLOWED_NAMES (ast_walk tree) = Some e"
    and k: "(\<exists>c. e = DisallowedConstruct c \<and> c \<notin> set ALLOWED_NODES) \<or>
            (\<exists>i. e = UnknownName i \<and> ALLOWED_NAMES i = None)"
    by blast
  from a e have "\<forall>ev. evaluate_with parse ev expr = Raises e"
    by (simp add: evaluate_with_rejected)
  with k show "\<exists>e. (\<forall>ev. evaluate_with parse ev expr = Raises e) \<and>
                ((\<exists>c. e = DisallowedConstruct c \<and> c \<notin> set ALLOWED_NODES) \<or>
                 (\<exists>i. e = UnknownName i \<and> ALLOWED_NAMES i = None))"
    by blast
next
  assume a: "parse (normalize_reservation expr) = Returns tree \<and>
    n \<in> set (ast_walk tree) \<and>
    (class_name n = ''Attribute'' \<or> (\<exists>i. n = Name i \<and> ALLOWED_NAMES_reservation i = None))"
  have "''Attribute'' \<notin> set ALLOWED_NODES_reservation"
    by (simp add: ALLOWED_NODES_reservation_def)
  with a have "class_name n \<notin> set ALLOWED_NODES_reservation \<or>
               (\<exists>i. n = Name i \<and> ALLOWED_NAMES_reservation i = None)"
    by auto
  with a check_nodes_foreign
           [of n "ast_walk tree" ALLOWED_NODES_reservation ALLOWED_NAMES_reservation]
  obtain e where
    e: "check_nodes ALLOWED_NODES_reservation ALLOWED_NAMES_reservation (ast_walk tree) = Some e"
    and k: "(\<exists>c. e = DisallowedConstruct c \<and> c \<notin> set ALLOWED_NODES_reservation) \<or>
            (\<exists>i. e = UnknownName i \<and> ALLOWED_NAMES_reservation i = None)"
    by blast
  from a e have "\<forall>ev. safe_eval_with parse ev expr = Raises e"
    by (simp add: safe_eval_with_rejected)
  with k show "\<exists>e. (\<forall>ev. safe_eval_with parse ev expr = Raises e) \<and>
                ((\<exists>c. e = DisallowedConstruct c \<and> c \<notin> set ALLOWED_NODES_reservation) \<or>
                 (\<exists>i. e = UnknownName i \<and> ALLOWED_NAMES_reservation i = None))"
    by blast
next
  show "evaluate (ascii ''__import__('os')'') = Raises (UnknownName (ascii ''__import__''))"
    by (simp add: eval_defs cong: obind_weak_cong)
next
  show "safe_eval (ascii ''__import__('os')'') = Raises (UnknownName (ascii ''__import__''))"
    by (simp add: eval_defs cong: obind_weak_cong)
qed

text \<open>
  The theorem at the text \<open>os.system('x')\<close>, whose tree holds the node
  \<open>Attribute(Name('os'), 'system')\<close>: both evaluators raise, whatever the evaluation.
\<close>

theorem foreign_name_or_attribute_rejected_witness:
  "strip (ascii ''os.system('x')'') \<noteq> [] \<and>
   ast_parse (normalize_main (strip (ascii ''os.system('x')''))) =
     Returns (Expression (Call (Attribute (Name (ascii ''os'')) (ascii ''system''))
                [Constant (CStr (ascii ''x''))] [])) \<and>
   ast_parse (normalize_reservation (ascii ''os.system('x')'')) =
     Returns (Expression (Call (Attribute (Name (ascii ''os'')) (ascii ''system''))
                [Constant (CStr (ascii ''x''))] [])) \<and>
   Attribute (Name (ascii ''os'')) (ascii ''system'') \<in>
     set (ast_walk (Expression (Call (Attribute (Name (ascii ''os'')) (ascii ''system''))
                [Constant (CStr (ascii ''x''))] []))) \<and>
   class_name (Attribute (Name (ascii ''os'')) (ascii ''system'')) = ''Attribute'' \<and>
   (\<exists>e. (\<forall>ev. evaluate_with ast_parse ev (ascii ''os.system('x')'') = Raises e) \<and>
        ((\<exists>c. e = DisallowedConstruct c \<and> c \<notin> set ALLOWED_NODES) \<or>
         (\<exists>i. e = UnknownName i \<and> ALLOWED_NAMES i = None))) \<and>
   (\<exists>e. (\<forall>ev. safe_eval_with ast_parse ev (ascii ''os.system('x')'') = Raises e) \<and>
        ((\<exists>c. e = DisallowedConstruct c \<and> c \<notin> set ALLOWED_NODES_reservation) \<or>
         (\<exists>i. e = UnknownName i \<and> ALLOWED_NAMES_reservation i = None)))"
proof -
  let ?a = "Attribute (Name (ascii ''os'')) (ascii ''system'')"
  let ?t = "Expression (Call ?a [Constant (CStr (ascii ''x''))] [])"
  have h1: "strip (ascii ''os.system('x')'') \<noteq> []"
    by (simp add: strip_def isspace_def ascii_def)
  have h2: "ast_parse (normalize_main (strip (ascii ''os.system('x')''))) = Returns ?t"
    by (simp add: eval_defs cong: obind_weak_cong)
  have h2': "ast_parse (normalize_reservation (ascii ''os.system('x')'')) = Returns ?t"
    by (simp add: eval_defs cong: obind_weak_cong)
  have h3: "?a \<in> set (ast_walk ?t)"
    by (simp add: ast_walk_def)
  have h4: "class_name ?a = ''Attribute''"
    by simp
  from foreign_name_or_attribute_rejected
         [of "ascii ''os.system('x')''" ast_parse ?t ?a]
       h1 h2 h2' h3 h4
  show ?thesis
    by blast
qed

text \<open>
  C1, as the claim states it, fails at \<open>os.system('x')\<close>. The host's parser accepts the
  dotted access, and the validation loop meets the \<open>Attribute\<close> node before the name
  \<open>os\<close>: the error is \<open>ValueError("Unsupported operation: Attribute")\<close>, the kind
  \<open>DisallowedConstruct\<close>, which is neither \<open>UnknownName\<close> nor \<open>SyntaxError\<close>.
\<close>

theorem evaluate_os_system_disallowed_construct:
  "evaluate (ascii ''os.system('x')'') = Raises (DisallowedConstruct ''Attribute'') \<and>
   safe_eval (ascii ''os.system('x')'') = Raises (DisallowedConstruct ''Attribute'')"
  by (simp add: eval_defs cong: obind_weak_cong)

section \<open>The contents of the name table\<close>

lemma dom_ALLOWED_NAMES:
  "dom ALLOWED_NAMES =
     set (map ascii (math_dir @ [''abs'', ''round'', ''pow'', ''factorial'', ''min'', ''max'']))"
  by (auto simp: ALLOWED_NAMES_def math_names_def dom_map_of_conv_image_fst image_iff)

lemma dom_ALLOWED_NAMES_reservation:
  "dom ALLOWED_NAMES_reservation =
     set (map ascii (math_dir @ [''abs'', ''round'', ''pow'', ''factorial'']))"
  by (auto simp: ALLOWED_NAMES_reservation_def math_names_def dom_map_of_conv_image_fst image_iff)

lemma math_names_not_complex:
  assumes "map_of math_names i = Some v"
  shows "\<not> is_complex v"
proof -
  from assms have "(i, v) \<in> set math_names"
    by (rule map_of_SomeD)
  then obtain name where "v = math_getattr name"
    by (auto simp: math_names_def)
  then show ?thesis
    by (simp add: math_getattr_def is_complex_def)
qed

lemma ALLOWED_NAMES_not_complex:
  assumes "ALLOWED_NAMES i = Some v"
  shows "\<not> is_complex v"
proof (cases "map_of math_names i = Some v")
  case True
  then show ?thesis by (rule math_names_not_complex)
next
  case False
  with assms have "(i, v) \<in> set
     [(ascii ''abs'', VFunc ''abs''), (ascii ''round'', VFunc ''round''),
      (ascii ''pow'', VFunc ''pow''), (ascii ''factorial'', VFunc ''math.factorial''),
      (ascii ''min'', VFunc ''min''), (ascii ''max'', VFunc ''max'')]"
    unfolding ALLOWED_NAMES_def map_add_Some_iff by (blast dest: map_of_SomeD)
  then show ?thesis
    by (auto simp: is_complex_def)
qed

lemma complex_check_id: "\<not> is_complex v \<Longrightarrow> complex_check (Returns v) = Returns v"
  by (cases v) (simp_all add: is_complex_def)

lemma check_nodes_unknown:
  assumes "Name i \<in> set ns" and "names i = None"
    and "list_all (\<lambda>n. class_name n \<in> set allowed) ns"
  shows "\<exists>j. names j = None \<and> check_nodes allowed names ns = Some (UnknownName j)"
proof -
  from assms(1,2) have "unknown_name names (Name i) \<noteq> None"
    by simp
  with assms(1) check_nodes_rejects [of "Name i" ns allowed names]
  obtain e where e: "check_nodes allowed names ns = Some e"
    by blast
  from check_nodes_Some [OF e] assms(3) e show ?thesis
    by (auto simp: list_all_iff)
qed

text \<open>
  C2, as the code has it. The table of \<open>Main.py\<close> holds every public name of the host's
  \<open>math\<close> module (sixty names on CPython 3.11, \<open>pi\<close>, \<open>e\<close>, \<open>sqrt\<close>, \<open>sin\<close>, \<open>cos\<close>,
  \<open>tan\<close>, \<open>log\<close>, \<open>log10\<close>, \<open>log2\<close> and \<open>exp\<close> among them) and the six names \<open>abs\<close>,
  \<open>round\<close>, \<open>pow\<close>, \<open>factorial\<close>, \<open>min\<close>, \<open>max\<close>; the table of \<open>Reservation.py\<close> is the
  same without \<open>min\<close> and \<open>max\<close>. An identifier of the table, taken alone, evaluates to
  its entry. A tree that holds an identifier outside the table, all of its nodes being
  of allowed classes, fails with \<open>UnknownName\<close>, whatever the evaluation would do.
\<close>

theorem name_table_contents:
  "dom ALLOWED_NAMES =
     set (map ascii (math_dir @ [''abs'', ''round'', ''pow'', ''factorial'', ''min'', ''max''])) \<and>
   dom ALLOWED_NAMES_reservation =
     set (map ascii (math_dir @ [''abs'', ''round'', ''pow'', ''factorial''])) \<and>
   list_all (\<lambda>name. name \<in> set math_dir)
     [''pi'', ''e'', ''sqrt'', ''sin'', ''cos'', ''tan'', ''log'', ''log10'', ''log2'', ''exp''] \<and>
   (ALLOWED_NAMES i = Some v \<and> strip expr \<noteq> [] \<and>
    parse (normalize_main (strip expr)) = Returns (Expression (Name i))
      \<longrightarrow> evaluate_with parse (py_eval ALLOWED_NAMES) expr = Returns v) \<and>
   (ALLOWED_NAMES_reservation i = Some v \<and>
    parse (normalize_reservation expr) = Returns (Expression (Name i))
      \<longrightarrow> safe_eval_with parse (py_eval ALLOWED_NAMES_reservation) expr = Returns v) \<and>
   (ALLOWED_NAMES i = None \<and> strip expr \<noteq> [] \<and>
    parse (normalize_main (strip expr)) = Returns tree \<and> Name i \<in> set (ast_walk tree) \<and>
    list_all (\<lambda>n. class_name n \<in> set ALLOWED_NODES) (ast_walk tree)
      \<longrightarrow> (\<exists>j. ALLOWED_NAMES j = None \<and>
               (\<forall>ev. evaluate_with parse ev expr = Raises (UnknownName j)))) \<and>
   (ALLOWED_NAMES_reservation i = None \<and>
    parse (normalize_reservation expr) = Returns tree \<and> Name i \<in> set (ast_walk tree) \<and>
    list_all (\<lambda>n. class_name n \<in> set ALLOWED_NODES_reservation) (ast_walk tree)
      \<longrightarrow> (\<exists>j. ALLOWED_NAMES_reservation j = None \<and>
               (\<forall>ev. safe_eval_with parse ev expr = Raises (UnknownName j))))"
proof (intro conjI impI)
  show "dom ALLOWED_NAMES =
     set (map ascii (math_dir @ [''abs'', ''round'', ''pow'', ''factorial'', ''min'', ''max'']))"
    by (rule dom_ALLOWED_NAMES)
next
  show "dom ALLOWED_NAMES_reservation =
     set (map ascii (math_dir @ [''abs'', ''round'', ''pow'', ''factorial'']))"
    by (rule dom_ALLOWED_NAMES_reservation)
next
  show "list_all (\<lambda>name. name \<in> set math_dir)
     [''pi'', ''e'', ''sqrt'', ''sin'', ''cos'', ''tan'', ''log'', ''log10'', ''log2'', ''exp'']"
    by (simp add: math_dir_def)
next
  assume a: "ALLOWED_NAMES i = Some v \<and> strip expr \<noteq> [] \<and>
    parse (normalize_main (strip expr)) = Returns (Expression (Name i))"
  then have "check_nodes ALLOWED_NODES ALLOWED_NAMES (ast_walk (Expression (Name i))) = None"
    by (simp add: ast_walk_def ALLOWED_NODES_def)
  with a have "evaluate_with parse (py_eval ALLOWED_NAMES) expr
                 = complex_check (py_eval ALLOWED_NAMES (Expression (Name i)))"
    by (simp add: evaluate_with_checked)
  moreover from a have "\<not> is_complex v"
    by (blast dest: ALLOWED_NAMES_not_complex)
  then have "complex_check (Returns v) = Returns v"
    by (rule complex_check_id)
  ultimately show "evaluate_with parse (py_eval ALLOWED_NAMES) expr = Returns v"
    using a by simp
next
  assume a: "ALLOWED_NAMES_reservation i = Some v \<and>
    parse (normalize_reservation expr) = Returns (Expression (Name i))"
  then have "check_nodes ALLOWED_NODES_reservation ALLOWED_NAMES_reservation
               (ast_walk (Expression (Name i))) = None"
    by (simp add: ast_walk_def ALLOWED_NODES_reservation_def)
  with a show "safe_eval_with parse (py_eval ALLOWED_NAMES_reservation) expr = Returns v"
    by (simp add: safe_eval_with_checked)
next
  assume a: "ALLOWED_NAMES i = None \<and> strip expr \<noteq> [] \<and>
    parse (normalize_main (strip expr)) = Returns tree \<and> Name i \<in> set (ast_walk tree) \<and>
    list_all (\<lambda>n. class_name n \<in> set ALLOWED_NODES) (ast_walk tree)"
  then have x: "Name i \<in> set (ast_walk tree)" "ALLOWED_NAMES i = None"
    "list_all (\<lambda>n. class_name n \<in> set ALLOWED_NODES) (ast_walk tree)"
    by simp_all
  from check_nodes_unknown [where names = ALLOWED_NAMES and allowed = ALLOWED_NODES, OF x]
  obtain j where j: "ALLOWED_NAMES j = None"
    and c: "check_nodes ALLOWED_NODES ALLOWED_NAMES (ast_walk tree) = Some (UnknownName j)"
    by blast
  from a c have "\<forall>ev. evaluate_with parse ev expr = Raises (UnknownName j)"
    by (simp add: evaluate_with_rejected)
  with j show "\<exists>j. ALLOWED_NAMES j = None \<and>
               (\<forall>ev. evaluate_with parse ev expr = Raises (UnknownName j))"
    by blast
next
  assume a: "ALLOWED_NAMES_reservation i = None \<and>
    parse (normalize_reservation expr) = Returns tree \<and> Name i \<in> set (ast_walk tree) \<and>
    list_all (\<lambda>n. class_name n \<in> set ALLOWED_NODES_reservation) (ast_walk tree)"
  then have x: "Name i \<in> set (ast_walk tree)" "ALLOWED_NAMES_reservation i = None"
    "list_all (\<lambda>n. class_name n \<in> set ALLOWED_NODES_reservation) (ast_walk tree)"
    by simp_all
  from check_nodes_unknown
         [where names = ALLOWED_NAMES_reservation and allowed = ALLOWED_NODES_reservation, OF x]
  obtain j where j: "ALLOWED_NAMES_reservation j = None"
    and c: "check_nodes ALLOWED_NODES_reservation ALLOWED_NAMES_reservation (ast_walk tree)
              = Some (UnknownName j)"
    by blast
  from a c have "\<forall>ev. safe_eval_with parse ev expr = Raises (UnknownName j)"
    by (simp add: safe_eval_with_rejected)
  with j show "\<exists>j. ALLOWED_NAMES_reservation j = None \<and>
               (\<forall>ev. safe_eval_with parse ev expr = Raises (UnknownName j))"
    by blast
qed

text \<open>The theorem at the texts \<open>pi\<close> and \<open>foo\<close>.\<close>

theorem name_table_contents_witness:
  "ALLOWED_NAMES (ascii ''pi'') = Some (VFloat (Dyadic 884279719003555 (- 48))) \<and>
   ALLOWED_NAMES_reservation (ascii ''pi'') = Some (VFloat (Dyadic 884279719003555 (- 48))) \<and>
   strip (ascii ''pi'') \<noteq> [] \<and>
   ast_parse (normalize_main (strip (ascii ''pi''))) = Returns (Expression (Name (ascii ''pi''))) \<and>
   ast_parse (normalize_reservation (ascii ''pi'')) = Returns (Expression (Name (ascii ''pi''))) \<and>
   evaluate_with ast_parse (py_eval ALLOWED_NAMES) (ascii ''pi'')
     = Returns (VFloat (Dyadic 884279719003555 (- 48))) \<and>
   safe_eval_with ast_parse (py_eval ALLOWED_NAMES_reservation) (ascii ''pi'')
     = Returns (VFloat (Dyadic 884279719003555 (- 48))) \<and>
   ALLOWED_NAMES (ascii ''foo'') = None \<and>
   ALLOWED_NAMES_reservation (ascii ''foo'') = None \<and>
   strip (ascii ''foo'') \<noteq> [] \<and>
   ast_parse (normalize_main (strip (ascii ''foo''))) = Returns (Expression (Name (ascii ''foo''))) \<and>
   ast_parse (normalize_reservation (ascii ''foo'')) = Returns (Expression (Name (ascii ''foo''))) \<and>
   Name (ascii ''foo'') \<in> set (ast_walk (Expression (Name (ascii ''foo'')))) \<and>
   list_all (\<lambda>n. class_name n \<in> set ALLOWED_NODES) (ast_walk (Expression (Name (ascii ''foo'')))) \<and>
   list_all (\<lambda>n. class_name n \<in> set ALLOWED_NODES_reservation)
     (ast_walk (Expression (Name (ascii ''foo'')))) \<and>
   (\<exists>j. ALLOWED_NAMES j = None \<and>
        (\<forall>ev. evaluate_with ast_parse ev (ascii ''foo'') = Raises (UnknownName j))) \<and>
   (\<exists>j. ALLOWED_NAMES_reservation j = None \<and>
        (\<forall>ev. safe_eval_with ast_parse ev (ascii ''foo'') = Raises (UnknownName j)))"
proof -
  let ?pi = "VFloat (Dyadic 884279719003555 (- 48))"
  let ?p = "Expression (Name (ascii ''pi''))"
  let ?f = "Expression (Name (ascii ''foo''))"
  have p1: "ALLOWED_NAMES (ascii ''pi'') = Some ?pi"
    by (simp add: table_defs ascii_def)
  have p1': "ALLOWED_NAMES_reservation (ascii ''pi'') = Some ?pi"
    by (simp add: table_defs ascii_def)
  have p2: "strip (ascii ''pi'') \<noteq> []"
    by (simp add: strip_def isspace_def ascii_def)
  have p3: "ast_parse (normalize_main (strip (ascii ''pi''))) = Returns ?p"
    by (simp add: eval_defs cong: obind_weak_cong)
  have p3': "ast_parse (normalize_reservation (ascii ''pi'')) = Returns ?p"
    by (simp add: eval_defs cong: obind_weak_cong)
  have f1: "ALLOWED_NAMES (ascii ''foo'') = None"
    by (simp add: table_defs ascii_def)
  have f1': "ALLOWED_NAMES_reservation (ascii ''foo'') = None"
    by (simp add: table_defs ascii_def)
  have f2: "strip (ascii ''foo'') \<noteq> []"
    by (simp add: strip_def isspace_def ascii_def)
  have f3: "ast_parse (normalize_main (strip (ascii ''foo''))) = Returns ?f"
    by (simp add: eval_defs cong: obind_weak_cong)
  have f3': "ast_parse (normalize_reservation (ascii ''foo'')) = Returns ?f"
    by (simp add: eval_defs cong: obind_weak_cong)
  have f4: "Name (ascii ''foo'') \<in> set (ast_walk ?f)"
    by (simp add: ast_walk_def)
  have f5: "list_all (\<lambda>n. class_name n \<in> set ALLOWED_NODES) (ast_walk ?f)"
    by (simp add: ast_walk_def ALLOWED_NODES_def)
  have f5': "list_all (\<lambda>n. class_name n \<in> set ALLOWED_NODES_reservation) (ast_walk ?f)"
    by (simp add: ast_walk_def ALLOWED_NODES_reservation_def)
  from name_table_contents [of "ascii ''pi''" ?pi "ascii ''pi''" ast_parse] p1 p1' p2 p3 p3'
  have a: "evaluate_with ast_parse (py_eval ALLOWED_NAMES) (ascii ''pi'') = Returns ?pi"
    and a': "safe_eval_with ast_parse (py_eval ALLOWED_NAMES_reservation) (ascii ''pi'') = Returns ?pi"
    by blast+
  from name_table_contents [of "ascii ''foo''" v "ascii ''foo''" ast_parse ?f] f1 f1' f2 f3 f3' f4 f5 f5'
  have b: "\<exists>j. ALLOWED_NAMES j = None \<and>
        (\<forall>ev. evaluate_with ast_parse ev (ascii ''foo'') = Raises (UnknownName j))"
    and b': "\<exists>j. ALLOWED_NAMES_reservation j = None \<and>
        (\<forall>ev. safe_eval_with ast_parse ev (ascii ''foo'') = Raises (UnknownName j))"
    by blast+
  from p1 p1' p2 p3 p3' a a' f1 f1' f2 f3 f3' f4 f5 f5' b b' show ?thesis
    by blast
qed

text \<open>
  C2, as the claim states it, fails in both directions. \<open>tau\<close> is not among the sixteen
  names of the claim, and \<open>SafeEvaluator.evaluate\<close> resolves it (to \<open>2\<pi>\<close>, a name of the
  \<open>math\<close> module); \<open>max\<close> is among them, and \<open>safe_eval\<close> of \<open>Reservation.py\<close> rejects it.
\<close>

theorem evaluate_tau_resolves:
  "evaluate (ascii ''tau'') = Returns (VFloat (Dyadic 884279719003555 (- 47))) \<and>
   safe_eval (ascii ''max(1,2)'') = Raises (UnknownName (ascii ''max''))"
  by (simp add: eval_defs cong: obind_weak_cong)

section \<open>Division by zero\<close>

text \<open>
  A true division of two numbers, the right one zero. Two \<open>int\<close>s raise
  \<open>ZeroDivisionError\<close> at once. Otherwise the host converts the operands first, and an
  \<open>int\<close> on the left that no \<open>float\<close> can hold raises \<open>OverflowError\<close> before the divisor
  is looked at.
\<close>

lemma binop_div_zero:
  assumes "is_number a" and "is_number b" and "is_zero b"
  shows "binop Div a b =
           (if converts a \<or> (\<exists>n. b = VInt n) then Raises ZeroDivisionError
            else Raises OverflowError)"
proof (cases b)
  case (VInt n)
  with assms(3) have n: "n = 0" by simp
  show ?thesis
  proof (cases a)
    case (VInt m)
    with \<open>b = VInt n\<close> n show ?thesis
      by (simp add: binop_def num_binop_def is_bitwise_def)
  next
    case (VFloat x)
    with \<open>b = VInt n\<close> n show ?thesis
      by (simp add: binop_def num_binop_def is_bitwise_def is_divide_def is_complex_def
            int_fits_float_def)
  next
    case (VComplex x y)
    with \<open>b = VInt n\<close> n show ?thesis
      by (simp add: binop_def num_binop_def is_bitwise_def is_divide_def is_complex_def
            int_fits_float_def)
  qed (use assms(1) in simp_all)
next
  case (VFloat y)
  with assms show ?thesis
    by (cases a)
       (simp_all add: binop_def num_binop_def is_bitwise_def is_divide_def is_complex_def)
next
  case (VComplex y z)
  with assms show ?thesis
    by (cases a)
       (simp_all add: binop_def num_binop_def is_bitwise_def is_divide_def is_complex_def)
qed (use assms(2) in simp_all)

text \<open>
  C8, as the code has it. When the expression is a true division whose operands evaluate
  to numbers, the right one exactly zero, both evaluators fail and return no number: with
  the host's \<open>ZeroDivisionError\<close> (the kind \<open>DivisionByZero\<close>) when the left operand
  converts to \<open>float\<close> or the zero is an \<open>int\<close>, with \<open>OverflowError\<close> otherwise. In
  particular \<open>5/0\<close> fails with \<open>ZeroDivisionError\<close>.
\<close>

theorem division_by_zero:
  "(strip expr \<noteq> [] \<and>
    parse (normalize_main (strip expr)) = Returns (Expression (BinOp l Div r)) \<and>
    check_nodes ALLOWED_NODES ALLOWED_NAMES (ast_walk (Expression (BinOp l Div r))) = None \<and>
    py_eval ALLOWED_NAMES l = Returns a \<and> py_eval ALLOWED_NAMES r = Returns b \<and>
    is_number a \<and> is_number b \<and> is_zero b
      \<longrightarrow> evaluate_with parse (py_eval ALLOWED_NAMES) expr =
            (if converts a \<or> (\<exists>n. b = VInt n) then Raises ZeroDivisionError
             else Raises OverflowError)) \<and>
   (parse (normalize_reservation expr) = Returns (Expression (BinOp l Div r)) \<and>
    check_nodes ALLOWED_NODES_reservation ALLOWED_NAMES_reservation
      (ast_walk (Expression (BinOp l Div r))) = None \<and>
    py_eval ALLOWED_NAMES_reservation l = Returns a \<and>
    py_eval ALLOWED_NAMES_reservation r = Returns b \<and>
    is_number a \<and> is_number b \<and> is_zero b
      \<longrightarrow> safe_eval_with parse (py_eval ALLOWED_NAMES_reservation) expr =
            (if converts a \<or> (\<exists>n. b = VInt n) then Raises ZeroDivisionError
             else Raises OverflowError)) \<and>
   evaluate (ascii ''5/0'') = Raises ZeroDivisionError \<and>
   safe_eval (ascii ''5/0'') = Raises ZeroDivisionError"
proof (intro conjI impI)
  assume a: "strip expr \<noteq> [] \<and>
    parse (normalize_main (strip expr)) = Returns (Expression (BinOp l Div r)) \<and>
    check_nodes ALLOWED_NODES ALLOWED_NAMES (ast_walk (Expression (BinOp l Div r))) = None \<and>
    py_eval ALLOWED_NAMES l = Returns a \<and> py_eval ALLOWED_NAMES r = Returns b \<and>
    is_number a \<and> is_number b \<and> is_zero b"
  then have "evaluate_with parse (py_eval ALLOWED_NAMES) expr
               = complex_check (py_eval ALLOWED_NAMES (Expression (BinOp l Div r)))"
    by (simp add: evaluate_with_checked)
  also from a have "py_eval ALLOWED_NAMES (Expression (BinOp l Div r)) = binop Div a b"
    by simp
  also from a have "binop Div a b =
      (if converts a \<or> (\<exists>n. b = VInt n) then Raises ZeroDivisionError else Raises OverflowError)"
    by (simp add: binop_div_zero)
  finally show "evaluate_with parse (py_eval ALLOWED_NAMES) expr =
      (if converts a \<or> (\<exists>n. b = VInt n) then Raises ZeroDivisionError else Raises OverflowError)"
    by simp
next
  assume a: "parse (normalize_reservation expr) = Returns (Expression (BinOp l Div r)) \<and>
    check_nodes ALLOWED_NODES_reservation ALLOWED_NAMES_reservation
      (ast_walk (Expression (BinOp l Div r))) = None \<and>
    py_eval ALLOWED_NAMES_reservation l = Returns a \<and>
    py_eval ALLOWED_NAMES_reservation r = Returns b \<and>
    is_number a \<and> is_number b \<and> is_zero b"
  then have "safe_eval_with parse (py_eval ALLOWED_NAMES_reservation) expr
               = py_eval ALLOWED_NAMES_reservation (Expression (BinOp l Div r))"
    by (simp add: safe_eval_with_checked)
  also from a have "\<dots> = binop Div a b"
    by simp
  also from a have "binop Div a b =
      (if converts a \<or> (\<exists>n. b = VInt n) then Raises ZeroDivisionError else Raises OverflowError)"
    by (simp add: binop_div_zero)
  finally show "safe_eval_with parse (py_eval ALLOWED_NAMES_reservation) expr =
      (if converts a \<or> (\<exists>n. b = VInt n) then Raises ZeroDivisionError else Raises OverflowError)" .
next
  show "evaluate (ascii ''5/0'') = Raises ZeroDivisionError"
    by (simp add: eval_defs cong: obind_weak_cong)
next
  show "safe_eval (ascii ''5/0'') = Raises ZeroDivisionError"
    by (simp add: eval_defs cong: obind_weak_cong)
qed

text \<open>The theorem at the text \<open>2.5/0\<close>: a \<open>float\<close> divided by the \<open>int\<close> zero.\<close>

theorem division_by_zero_witness:
  "strip (ascii ''2.5/0'') \<noteq> [] \<and>
   ast_parse (normalize_main (strip (ascii ''2.5/0''))) =
     Returns (Expression (BinOp (Constant (CFloat (Dyadic 5 (- 1)))) Div (Constant (CInt 0)))) \<and>
   ast_parse (normalize_reservation (ascii ''2.5/0'')) =
     Returns (Expression (BinOp (Constant (CFloat (Dyadic 5 (- 1)))) Div (Constant (CInt 0)))) \<and>
   check_nodes ALLOWED_NODES ALLOWED_NAMES
     (ast_walk (Expression (BinOp (Constant (CFloat (Dyadic 5 (- 1)))) Div (Constant (CInt 0)))))
     = None \<and>
   check_nodes ALLOWED_NODES_reservation ALLOWED_NAMES_reservation
     (ast_walk (Expression (BinOp (Constant (CFloat (Dyadic 5 (- 1)))) Div (Constant (CInt 0)))))
     = None \<and>
   py_eval ALLOWED_NAMES (Constant (CFloat (Dyadic 5 (- 1)))) = Returns (VFloat (Dyadic 5 (- 1))) \<and>
   py_eval ALLOWED_NAMES (Constant (CInt 0)) = Returns (VInt 0) \<and>
   py_eval ALLOWED_NAMES_reservation (Constant (CFloat (Dyadic 5 (- 1))))
     = Returns (VFloat (Dyadic 5 (- 1))) \<and>
   py_eval ALLOWED_NAMES_reservation (Constant (CInt 0)) = Returns (VInt 0) \<and>
   is_number (VFloat (Dyadic 5 (- 1))) \<and> is_number (VInt 0) \<and> is_zero (VInt 0) \<and>
   converts (VFloat (Dyadic 5 (- 1))) \<and>
   evaluate_with ast_parse (py_eval ALLOWED_NAMES) (ascii ''2.5/0'') = Raises ZeroDivisionError \<and>
   safe_eval_with ast_parse (py_eval ALLOWED_NAMES_reservation) (ascii ''2.5/0'')
     = Raises ZeroDivisionError"
proof -
  let ?l = "Constant (CFloat (Dyadic 5 (- 1)))"
  let ?r = "Constant (CInt 0)"
  let ?t = "Expression (BinOp ?l Div ?r)"
  have h1: "strip (ascii ''2.5/0'') \<noteq> []"
    by (simp add: strip_def isspace_def ascii_def)
  have h2: "ast_parse (normalize_main (strip (ascii ''2.5/0''))) = Returns ?t"
    by (simp add: eval_defs cong: obind_weak_cong)
  have h2': "ast_parse (normalize_reservation (ascii ''2.5/0'')) = Returns ?t"
    by (simp add: eval_defs cong: obind_weak_cong)
  have h3: "check_nodes ALLOWED_NODES ALLOWED_NAMES (ast_walk ?t) = None"
    by (simp add: table_defs)
  have h3': "check_nodes ALLOWED_NODES_reservation ALLOWED_NAMES_reservation (ast_walk ?t) = None"
    by (simp add: table_defs)
  have h4: "py_eval ALLOWED_NAMES ?l = Returns (VFloat (Dyadic 5 (- 1)))"
    "py_eval ALLOWED_NAMES ?r = Returns (VInt 0)"
    "py_eval ALLOWED_NAMES_reservation ?l = Returns (VFloat (Dyadic 5 (- 1)))"
    "py_eval ALLOWED_NAMES_reservation ?r = Returns (VInt 0)"
    by simp_all
  have h5: "is_number (VFloat (Dyadic 5 (- 1)))" "is_number (VInt 0)" "is_zero (VInt 0)"
    "converts (VFloat (Dyadic 5 (- 1)))"
    by simp_all
  from division_by_zero
         [of "ascii ''2.5/0''" ast_parse ?l ?r "VFloat (Dyadic 5 (- 1))" "VInt 0"]
       h1 h2 h2' h3 h3' h4 h5
  have a: "evaluate_with ast_parse (py_eval ALLOWED_NAMES) (ascii ''2.5/0'') = Raises ZeroDivisionError"
    and a': "safe_eval_with ast_parse (py_eval ALLOWED_NAMES_reservation) (ascii ''2.5/0'')
              = Raises ZeroDivisionError"
    by simp_all
  from h1 h2 h2' h3 h3' h4 h5 a a' show ?thesis
    by blast
qed

text \<open>
  C8, as the claim states it, fails at \<open>10**400/0.0\<close>: the right operand is exactly zero,
  and the failure is the host's \<open>OverflowError\<close> ("int too large to convert to float"),
  raised when the left operand is converted, not a division by zero.
\<close>

theorem evaluate_division_overflow:
  "evaluate (ascii ''10**400/0.0'') = Raises OverflowError \<and>
   safe_eval (ascii ''10**400/0.0'') = Raises OverflowError"
  by (simp add: eval_defs cong: obind_weak_cong)

section \<open>Square root and factorial\<close>

lemma factorial_lookup:
  "ALLOWED_NAMES (ascii ''factorial'') = Some (VFunc ''math.factorial'')"
  "ALLOWED_NAMES_reservation (ascii ''factorial'') = Some (VFunc ''math.factorial'')"
  by (simp_all add: table_defs ascii_def)

lemma py_eval_factorial:
  assumes "names (ascii ''factorial'') = Some (VFunc ''math.factorial'')"
    and "py_eval names arg = Returns v"
  shows "py_eval names (Expression (Call (Name (ascii ''factorial'')) [arg] [])) = math_factorial [v]"
  using assms by (simp add: call_function_def)

lemma math_factorial_negative: "n < 0 \<Longrightarrow> math_factorial [VInt n] = Raises DomainError"
  by simp

lemma math_factorial_not_int: "(\<forall>n. v \<noteq> VInt n) \<Longrightarrow> math_factorial [v] = Raises TypeError"
  by (cases v) simp_all

text \<open>
  C9, as the code has it (on CPython 3.10 and later). \<open>sqrt(16)\<close> returns \<open>4.0\<close> and
  \<open>factorial(5)\<close> returns \<open>120\<close>. A call of \<open>factorial\<close> with one argument fails and
  returns no number when the argument is negative or is no \<open>int\<close>: a negative \<open>int\<close>
  raises the host's \<open>ValueError\<close> (the kind \<open>DomainError\<close>), as \<open>factorial(-1)\<close> does, and
  an argument that is not an \<open>int\<close>, a \<open>float\<close> included, raises \<open>TypeError\<close>.
\<close>

theorem sqrt_and_factorial:
  "evaluate (ascii ''sqrt(16)'') = Returns (VFloat (Dyadic 1 2)) \<and>
   evaluate (ascii ''factorial(5)'') = Returns (VInt 120) \<and>
   evaluate (ascii ''factorial(-1)'') = Raises DomainError \<and>
   safe_eval (ascii ''sqrt(16)'') = Returns (VFloat (Dyadic 1 2)) \<and>
   safe_eval (ascii ''factorial(5)'') = Returns (VInt 120) \<and>
   safe_eval (ascii ''factorial(-1)'') = Raises DomainError \<and>
   (strip expr \<noteq> [] \<and>
    parse (normalize_main (strip expr))
      = Returns (Expression (Call (Name (ascii ''factorial'')) [arg] [])) \<and>
    check_nodes ALLOWED_NODES ALLOWED_NAMES
      (ast_walk (Expression (Call (Name (ascii ''factorial'')) [arg] []))) = None \<and>
    py_eval ALLOWED_NAMES arg = Returns v \<and> ((\<exists>n. v = VInt n \<and> n < 0) \<or> (\<forall>n. v \<noteq> VInt n))
      \<longrightarrow> evaluate_with parse (py_eval ALLOWED_NAMES) expr =
            (if \<exists>n. v = VInt n then Raises DomainError else Raises TypeError)) \<and>
   (parse (normalize_reservation expr)
      = Returns (Expression (Call (Name (ascii ''factorial'')) [arg] [])) \<and>
    check_nodes ALLOWED_NODES_reservation ALLOWED_NAMES_reservation
      (ast_walk (Expression (Call (Name (ascii ''factorial'')) [arg] []))) = None \<and>
    py_eval ALLOWED_NAMES_reservation arg = Returns v \<and>
    ((\<exists>n. v = VInt n \<and> n < 0) \<or> (\<forall>n. v \<noteq> VInt n))
      \<longrightarrow> safe_eval_with parse (py_eval ALLOWED_NAMES_reservation) expr =
            (if \<exists>n. v = VInt n then Raises DomainError else Raises TypeError))"
proof (intro conjI impI)
  assume a: "strip expr \<noteq> [] \<and>
    parse (normalize_main (strip expr))
      = Returns (Expression (Call (Name (ascii ''factorial'')) [arg] [])) \<and>
    check_nodes ALLOWED_NODES ALLOWED_NAMES
      (ast_walk (Expression (Call (Name (ascii ''factorial'')) [arg] []))) = None \<and>
    py_eval ALLOWED_NAMES arg = Returns v \<and> ((\<exists>n. v = VInt n \<and> n < 0) \<or> (\<forall>n. v \<noteq> VInt n))"
  then have "evaluate_with parse (py_eval ALLOWED_NAMES) expr
      = complex_check (py_eval ALLOWED_NAMES (Expression (Call (Name (ascii ''factorial'')) [arg] [])))"
    by (simp add: evaluate_with_checked)
  also from a have "py_eval ALLOWED_NAMES (Expression (Call (Name (ascii ''factorial'')) [arg] []))
      = math_factorial [v]"
    by (simp add: factorial_lookup call_function_def)
  also from a have "math_factorial [v] = (if \<exists>n. v = VInt n then Raises DomainError else Raises TypeError)"
    by (auto simp: math_factorial_not_int)
  finally show "evaluate_with parse (py_eval ALLOWED_NAMES) expr =
      (if \<exists>n. v = VInt n then Raises DomainError else Raises TypeError)"
    by simp
next
  assume a: "parse (normalize_reservation expr)
      = Returns (Expression (Call (Name (ascii ''factorial'')) [arg] [])) \<and>
    check_nodes ALLOWED_NODES_reservation ALLOWED_NAMES_reservation
      (ast_walk (Expression (Call (Name (ascii ''factorial'')) [arg] []))) = None \<and>
    py_eval ALLOWED_NAMES_reservation arg = Returns v \<and>
    ((\<exists>n. v = VInt n \<and> n < 0) \<or> (\<forall>n. v \<noteq> VInt n))"
  then have "safe_eval_with parse (py_eval ALLOWED_NAMES_reservation) expr
      = py_eval ALLOWED_NAMES_reservation (Expression (Call (Name (ascii ''factorial'')) [arg] []))"
    by (simp add: safe_eval_with_checked)
  also from a have "\<dots> = math_factorial [v]"
    by (simp add: factorial_lookup call_function_def)
  also from a have "math_factorial [v] = (if \<exists>n. v = VInt n then Raises DomainError else Raises TypeError)"
    by (auto simp: math_factorial_not_int)
  finally show "safe_eval_with parse (py_eval ALLOWED_NAMES_reservation) expr =
      (if \<exists>n. v = VInt n then Raises DomainError else Raises TypeError)" .
qed (simp_all add: eval_defs cong: obind_weak_cong)

text \<open>The theorem at the text \<open>factorial(-3)\<close>.\<close>

theorem sqrt_and_factorial_witness:
  "strip (ascii ''factorial(-3)'') \<noteq> [] \<and>
   ast_parse (normalize_main (strip (ascii ''factorial(-3)''))) =
     Returns (Expression (Call (Name (ascii ''factorial'')) [UnaryOp USub (Constant (CInt 3))] [])) \<and>
   ast_parse (normalize_reservation (ascii ''factorial(-3)'')) =
     Returns (Expression (Call (Name (ascii ''factorial'')) [UnaryOp USub (Constant (CInt 3))] [])) \<and>
   check_nodes ALLOWED_NODES ALLOWED_NAMES
     (ast_walk (Expression (Call (Name (ascii ''factorial'')) [UnaryOp USub (Constant (CInt 3))] [])))
     = None \<and>
   check_nodes ALLOWED_NODES_reservation ALLOWED_NAMES_reservation
     (ast_walk (Expression (Call (Name (ascii ''factorial'')) [UnaryOp USub (Constant (CInt 3))] [])))
     = None \<and>
   py_eval ALLOWED_NAMES (UnaryOp USub (Constant (CInt 3))) = Returns (VInt (- 3)) \<and>
   py_eval ALLOWED_NAMES_reservation (UnaryOp USub (Constant (CInt 3))) = Returns (VInt (- 3)) \<and>
   (- 3 :: int) < 0 \<and>
   evaluate_with ast_parse (py_eval ALLOWED_NAMES) (ascii ''factorial(-3)'') = Raises DomainError \<and>
   safe_eval_with ast_parse (py_eval ALLOWED_NAMES_reservation) (ascii ''factorial(-3)'')
     = Raises DomainError"
proof -
  let ?a = "UnaryOp USub (Constant (CInt 3))"
  let ?t = "Expression (Call (Name (ascii ''factorial'')) [?a] [])"
  have h1: "strip (ascii ''factorial(-3)'') \<noteq> []"
    by (simp add: strip_def isspace_def ascii_def)
  have h2: "ast_parse (normalize_main (strip (ascii ''factorial(-3)''))) = Returns ?t"
    by (simp add: eval_defs cong: obind_weak_cong)
  have h2': "ast_parse (normalize_reservation (ascii ''factorial(-3)'')) = Returns ?t"
    by (simp add: eval_defs cong: obind_weak_cong)
  have h3: "check_nodes ALLOWED_NODES ALLOWED_NAMES (ast_walk ?t) = None"
    by (simp add: table_defs ascii_def)
  have h3': "check_nodes ALLOWED_NODES_reservation ALLOWED_NAMES_reservation (ast_walk ?t) = None"
    by (simp add: table_defs ascii_def)
  have h4: "py_eval ALLOWED_NAMES ?a = Returns (VInt (- 3))"
    "py_eval ALLOWED_NAMES_reservation ?a = Returns (VInt (- 3))"
    by simp_all
  have h5: "(- 3 :: int) < 0"
    by simp
  from sqrt_and_factorial [of "ascii ''factorial(-3)''" ast_parse ?a "VInt (- 3)"]
       h1 h2 h2' h3 h3' h4
  have a: "evaluate_with ast_parse (py_eval ALLOWED_NAMES) (ascii ''factorial(-3)'') = Raises DomainError"
    and a': "safe_eval_with ast_parse (py_eval ALLOWED_NAMES_reservation) (ascii ''factorial(-3)'')
               = Raises DomainError"
    by simp_all
  from h1 h2 h2' h3 h3' h4 h5 a a' show ?thesis
    by blast
qed

text \<open>
  C9, as the claim states it, fails at \<open>factorial(2.5)\<close>: the argument is not an integer,
  and the call fails with the host's \<open>TypeError\<close> ("'float' object cannot be interpreted
  as an integer"), not with the \<open>ValueError\<close> of the kind \<open>DomainError\<close>.
\<close>

theorem evaluate_factorial_float_type_error:
  "evaluate (ascii ''factorial(2.5)'') = Raises TypeError \<and>
   safe_eval (ascii ''factorial(2.5)'') = Raises TypeError"
  by (simp add: eval_defs cong: obind_weak_cong)

end
